theory Spec2Isabelle
  imports Complex_Main "HOL-Library.Char_ord" "HOL-Library.List_Lexorder"
begin

section \<open>Numeric cells\<close>

text \<open>
  Every cell of a DataFrame of the analytics module is a float64. The model keeps the
  special values that steer pandas: \<open>NaN\<close> is the missing value tested by
  \<^verbatim>\<open>dropna\<close> and skipped by the reductions, and a division by zero on
  array data gives an infinity or \<open>NaN\<close> (numpy warns, it does not raise).
  Finite values are real numbers and are computed with exactly: rounding, overflow,
  underflow and the sign of zero are outside the model (a zero divisor counts as +0).
\<close>

datatype cell = Num real | PInf | NInf | NaN

fun cneg :: "cell \<Rightarrow> cell" where
  "cneg (Num a) = Num (- a)"
| "cneg PInf = NInf"
| "cneg NInf = PInf"
| "cneg NaN = NaN"

fun cadd :: "cell \<Rightarrow> cell \<Rightarrow> cell" where
  "cadd (Num a) (Num b) = Num (a + b)"
| "cadd NaN y = NaN"
| "cadd x NaN = NaN"
| "cadd PInf NInf = NaN"
| "cadd NInf PInf = NaN"
| "cadd PInf y = PInf"
| "cadd x PInf = PInf"
| "cadd NInf y = NInf"
| "cadd x NInf = NInf"

definition csub :: "cell \<Rightarrow> cell \<Rightarrow> cell" where
  "csub x y = cadd x (cneg y)"

text \<open>An infinity scaled by the sign of a finite factor; infinity times zero is NaN.\<close>

definition scale_inf :: "real \<Rightarrow> cell \<Rightarrow> cell" where
  "scale_inf a i = (if a = 0 then NaN else if 0 < a then i else cneg i)"

fun cmul :: "cell \<Rightarrow> cell \<Rightarrow> cell" where
  "cmul (Num a) (Num b) = Num (a * b)"
| "cmul NaN y = NaN"
| "cmul x NaN = NaN"
| "cmul (Num a) y = scale_inf a y"
| "cmul x (Num b) = scale_inf b x"
| "cmul PInf y = y"
| "cmul NInf y = cneg y"

fun cdiv :: "cell \<Rightarrow> cell \<Rightarrow> cell" where
  "cdiv (Num a) (Num b) =
     (if b = 0 then (if a = 0 then NaN else if 0 < a then PInf else NInf)
      else Num (a / b))"
| "cdiv NaN y = NaN"
| "cdiv x NaN = NaN"
| "cdiv (Num a) y = Num 0"
| "cdiv PInf (Num b) = (if 0 \<le> b then PInf else NInf)"
| "cdiv NInf (Num b) = (if 0 \<le> b then NInf else PInf)"
| "cdiv x y = NaN"

fun csqrt_cell :: "cell \<Rightarrow> cell" where
  "csqrt_cell (Num a) = (if a < 0 then NaN else Num (sqrt a))"
| "csqrt_cell PInf = PInf"
| "csqrt_cell NInf = NaN"
| "csqrt_cell NaN = NaN"

text \<open>\<^verbatim>\<open>x >= 0\<close> on a float: false for NaN.\<close>

fun nonneg_cell :: "cell \<Rightarrow> bool" where
  "nonneg_cell (Num a) = (0 \<le> a)"
| "nonneg_cell PInf = True"
| "nonneg_cell NInf = False"
| "nonneg_cell NaN = False"

fun is_finite :: "cell \<Rightarrow> bool" where
  "is_finite (Num a) = True"
| "is_finite c = False"

text \<open>The sum of an array, left to right from 0.\<close>

definition csum :: "cell list \<Rightarrow> cell" where
  "csum xs = foldl cadd (Num 0) xs"

section \<open>DataFrames and the pandas operations the module calls\<close>

text \<open>
  A DataFrame is held by columns, as pandas holds it: the row labels and, per column, its
  label and its values. In a well-formed frame every column is as long as the index. A
  Series is a list of labelled values. A PriceMatrix is a frame with dates as row labels
  and ticker symbols as column labels.
\<close>

record ('i, 'c) frame =
  index :: "'i list"
  columns :: "('c \<times> cell list) list"

type_synonym 'c series = "('c \<times> cell) list"

definition frame_ok :: "('i, 'c) frame \<Rightarrow> bool" where
  "frame_ok fr = list_all (\<lambda>col. length (snd col) = length (index fr)) (columns fr)"

definition nrows :: "('i, 'c) frame \<Rightarrow> nat" where
  "nrows fr = length (index fr)"

definition ncols :: "('i, 'c) frame \<Rightarrow> nat" where
  "ncols fr = length (columns fr)"

text \<open>\<^verbatim>\<open>df.iloc[t]\<close> for a position \<open>t\<close> in range: row \<open>t\<close> as a Series.\<close>

definition row_at :: "('i, 'c) frame \<Rightarrow> nat \<Rightarrow> 'c series" where
  "row_at fr t = map (\<lambda>col. (fst col, snd col ! t)) (columns fr)"

definition no_missing :: "('i, 'c) frame \<Rightarrow> bool" where
  "no_missing fr = list_all (\<lambda>col. list_all (\<lambda>x. x \<noteq> NaN) (snd col)) (columns fr)"

text \<open>\<^verbatim>\<open>shift(1)\<close>: every value moves down one row, the first becomes NaN.\<close>

definition shift1 :: "cell list \<Rightarrow> cell list" where
  "shift1 xs = (if xs = [] then [] else NaN # butlast xs)"

text \<open>
  \<^verbatim>\<open>ffill\<close>: a missing value takes the last value present before it (the
  default \<^verbatim>\<open>fill_method='pad'\<close> of \<^verbatim>\<open>pct_change\<close> in pandas 1 and 2).
\<close>

fun ffill_from :: "cell \<Rightarrow> cell list \<Rightarrow> cell list" where
  "ffill_from prev [] = []"
| "ffill_from prev (x # xs) =
     (if x = NaN then prev # ffill_from prev xs else x # ffill_from x xs)"

definition ffill :: "cell list \<Rightarrow> cell list" where
  "ffill xs = ffill_from NaN xs"

text \<open>\<^verbatim>\<open>pct_change\<close>: \<^verbatim>\<open>data / data.shift(1) - 1\<close> on the filled data.\<close>

definition pct_change_col :: "cell list \<Rightarrow> cell list" where
  "pct_change_col xs =
     (let d = ffill xs in map2 (\<lambda>x s. csub (cdiv x s) (Num 1)) d (shift1 d))"

definition pct_change :: "('i, 'c) frame \<Rightarrow> ('i, 'c) frame" where
  "pct_change fr =
     \<lparr>index = index fr, columns = map (\<lambda>col. (fst col, pct_change_col (snd col))) (columns fr)\<rparr>"

text \<open>
  \<^verbatim>\<open>dropna()\<close> with its defaults (\<^verbatim>\<open>axis=0, how='any'\<close>): a row stays
  when none of its cells is missing. A frame without columns keeps all its rows.
\<close>

definition row_complete :: "('i, 'c) frame \<Rightarrow> nat \<Rightarrow> bool" where
  "row_complete fr t = list_all (\<lambda>col. snd col ! t \<noteq> NaN) (columns fr)"

definition take_rows :: "bool list \<Rightarrow> 'a list \<Rightarrow> 'a list" where
  "take_rows keep xs = map fst (filter snd (zip xs keep))"

definition dropna :: "('i, 'c) frame \<Rightarrow> ('i, 'c) frame" where
  "dropna fr =
     (let keep = map (row_complete fr) [0..<length (index fr)]
      in \<lparr>index = take_rows keep (index fr),
          columns = map (\<lambda>col. (fst col, take_rows keep (snd col))) (columns fr)\<rparr>)"

text \<open>
  The reductions of a column, with pandas' defaults \<^verbatim>\<open>skipna=True\<close> and
  \<^verbatim>\<open>ddof=1\<close>: missing values are left out; the mean of nothing is NaN, and so is the
  variance of fewer than two values. An infinite value makes the variance NaN through
  \<open>inf - inf\<close>. The formulas are those of pandas' \<^verbatim>\<open>nanops\<close> (mean, then the
  squared deviations from it), on exact numbers: where float64 rounds, overflows or
  underflows, the finite value that pandas returns differs from the one here. What
  is proved of the volatility is therefore stated so that nothing in it hangs on an exact
  finite value: its structure, which results are NaN, that none is negative.
\<close>

definition notna_vals :: "cell list \<Rightarrow> cell list" where
  "notna_vals xs = filter (\<lambda>x. x \<noteq> NaN) xs"

definition nanmean :: "cell list \<Rightarrow> cell" where
  "nanmean xs =
     (let v = notna_vals xs
      in if v = [] then NaN else cdiv (csum v) (Num (real (length v))))"

definition nanvar :: "cell list \<Rightarrow> cell" where
  "nanvar xs =
     (let v = notna_vals xs; n = length v
      in if n \<le> 1 then NaN
         else let avg = cdiv (csum v) (Num (real n));
                  sqr = map (\<lambda>x. cmul (csub avg x) (csub avg x)) v
              in cdiv (csum sqr) (Num (real (n - 1))))"

definition nanstd :: "cell list \<Rightarrow> cell" where
  "nanstd xs = csqrt_cell (nanvar xs)"

text \<open>\<^verbatim>\<open>df.std()\<close> and \<^verbatim>\<open>df.mean()\<close>: one value per column.\<close>

definition frame_std :: "('i, 'c) frame \<Rightarrow> 'c series" where
  "frame_std fr = map (\<lambda>col. (fst col, nanstd (snd col))) (columns fr)"

definition frame_mean :: "('i, 'c) frame \<Rightarrow> 'c series" where
  "frame_mean fr = map (\<lambda>col. (fst col, nanmean (snd col))) (columns fr)"

text \<open>A Series times a scalar, and the mean of a Series.\<close>

definition series_scale :: "'c series \<Rightarrow> cell \<Rightarrow> 'c series" where
  "series_scale s k = map (\<lambda>e. (fst e, cmul (snd e) k)) s"

definition series_mean :: "'c series \<Rightarrow> cell" where
  "series_mean s = nanmean (map snd s)"

section \<open>Metrics calculator\<close>

text \<open>
  \<^verbatim>\<open>
  def calculate_metrics(df):
      returns = df.pct_change().dropna()
      volatility = returns.std() * np.sqrt(252)
      return returns, volatility
  \<close>
\<close>

definition calculate_metrics :: "('i, 'c) frame \<Rightarrow> ('i, 'c) frame \<times> 'c series" where
  "calculate_metrics df =
     (let returns = dropna (pct_change df);
          volatility = series_scale (frame_std returns) (csqrt_cell (Num 252))
      in (returns, volatility))"


section \<open>Python values and errors\<close>

text \<open>The exceptions the modelled code can raise.\<close>

datatype error =
    IndexError          \<comment> \<open>\<^verbatim>\<open>df.iloc[-1]\<close> on a frame without rows, a list index out of range\<close>
  | ValueError          \<comment> \<open>duplicate entries in \<^verbatim>\<open>pivot\<close>, a column of the wrong length, a negative scale\<close>
  | ZeroDivisionError   \<comment> \<open>\<^verbatim>\<open>1. / 0\<close> on Python numbers\<close>
  | KeyError            \<comment> \<open>a column label that the frame does not have\<close>
  | DatabaseError       \<comment> \<open>the SQL query failed\<close>
  | WidgetError         \<comment> \<open>a Streamlit widget refused its arguments\<close>

text \<open>
  A Python \<^verbatim>\<open>dict\<close> keeps its keys in the order of their first insertion; storing
  under a key that is present replaces the value in place. \<^verbatim>\<open>dict(pairs)\<close> stores the
  pairs one after the other.
\<close>

fun dict_set :: "('k \<times> 'v) list \<Rightarrow> 'k \<Rightarrow> 'v \<Rightarrow> ('k \<times> 'v) list" where
  "dict_set [] k v = [(k, v)]"
| "dict_set (e # d) k v = (if fst e = k then (k, v) # d else e # dict_set d k v)"

definition py_dict :: "('k \<times> 'v) list \<Rightarrow> ('k \<times> 'v) list" where
  "py_dict ps = foldl (\<lambda>d p. dict_set d (fst p) (snd p)) [] ps"

section \<open>Portfolio optimizer\<close>

text \<open>
  \<^verbatim>\<open>df.cov()\<close> on a frame with missing cells (the result of \<^verbatim>\<open>pct_change\<close>
  always has them in its first row): for every pair of columns, the sample covariance
  (divisor \<open>n - 1\<close>) over the rows where both values are finite; NaN when fewer than two
  such rows exist. pandas accumulates it by Welford's recurrence; the model uses the
  closed formula, which is the same number in exact arithmetic.
\<close>

definition cov_pair :: "cell list \<Rightarrow> cell list \<Rightarrow> cell" where
  "cov_pair xs ys =
     (let ps = filter (\<lambda>p. is_finite (fst p) \<and> is_finite (snd p)) (zip xs ys);
          n = length ps
      in if n \<le> 1 then NaN
         else let meanx = cdiv (csum (map fst ps)) (Num (real n));
                  meany = cdiv (csum (map snd ps)) (Num (real n));
                  covxy = csum (map (\<lambda>p. cmul (csub (fst p) meanx) (csub (snd p) meany)) ps)
              in cdiv covxy (Num (real (n - 1))))"

definition frame_cov :: "('i, 'c) frame \<Rightarrow> cell list list" where
  "frame_cov fr =
     map (\<lambda>ci. map (\<lambda>cj. cov_pair (snd ci) (snd cj)) (columns fr)) (columns fr)"

text \<open>\<^verbatim>\<open>np.dot\<close> of two vectors, and of a matrix (a list of rows) with a vector.\<close>

definition dot :: "cell list \<Rightarrow> cell list \<Rightarrow> cell" where
  "dot xs ys = csum (map2 cmul xs ys)"

definition mat_vec :: "cell list list \<Rightarrow> cell list \<Rightarrow> cell list" where
  "mat_vec m v = map (\<lambda>r. dot r v) m"

text \<open>
  \<^verbatim>\<open>
  def negative_sharpe(weights):
      p_ret = np.dot(weights, mu)
      p_vol = np.sqrt(np.dot(weights.T, np.dot(S, weights)))
      return - (p_ret / p_vol)
  \<close>
\<close>

definition negative_sharpe :: "'c series \<Rightarrow> cell list list \<Rightarrow> cell list \<Rightarrow> cell" where
  "negative_sharpe mu S weights =
     (let p_ret = dot weights (map snd mu);
          p_vol = csqrt_cell (dot weights (mat_vec S weights))
      in cneg (cdiv p_ret p_vol))"

text \<open>
  The arguments of \<^verbatim>\<open>scipy.optimize.minimize\<close>. The solver itself is outside the
  repository: it is a parameter of the model, a function from the problem it is given to
  the vector \<^verbatim>\<open>result.x\<close> it reports.
\<close>

datatype solver_method = SLSQP

record problem =
  objective :: "cell list \<Rightarrow> cell"
  x0 :: "cell list"
  solver_method :: solver_method
  bounds :: "(cell \<times> cell) list"
  eq_constraint :: "cell list \<Rightarrow> cell"

type_synonym solver = "problem \<Rightarrow> cell list"

text \<open>
  \<^verbatim>\<open>
  def optimize_portfolio(df):
      mu = df.pct_change().mean() * 252
      S = df.pct_change().cov() * 252
      ...
      num_assets = len(df.columns)
      constraints = ({'type': 'eq', 'fun': lambda x: np.sum(x) - 1})
      bounds = tuple((0, 1) for _ in range(num_assets))
      initial_guess = num_assets * [1. / num_assets]
      result = minimize(negative_sharpe, initial_guess, method='SLSQP',
                        bounds=bounds, constraints=constraints)
      optimal_weights = dict(zip(df.columns, result.x))
      return optimal_weights
  \<close>
  \<open>sharpe_problem\<close> is the call's argument list; \<^verbatim>\<open>1. / num_assets\<close> divides Python
  numbers and raises for a frame without columns.
\<close>

definition annual_mu :: "('i, 'c) frame \<Rightarrow> 'c series" where
  "annual_mu df = series_scale (frame_mean (pct_change df)) (Num 252)"

definition annual_cov :: "('i, 'c) frame \<Rightarrow> cell list list" where
  "annual_cov df = map (map (\<lambda>c. cmul c (Num 252))) (frame_cov (pct_change df))"

definition sharpe_problem :: "('i, 'c) frame \<Rightarrow> error + problem" where
  "sharpe_problem df =
     (let mu = annual_mu df;
          S = annual_cov df;
          num_assets = length (columns df)
      in if num_assets = 0 then Inl ZeroDivisionError
         else Inr \<lparr>objective = negative_sharpe mu S,
                   x0 = replicate num_assets (Num (1 / real num_assets)),
                   solver_method = SLSQP,
                   bounds = replicate num_assets (Num 0, Num 1),
                   eq_constraint = (\<lambda>x. csub (csum x) (Num 1))\<rparr>)"

definition optimize_portfolio :: "solver \<Rightarrow> ('i, 'c) frame \<Rightarrow> error + ('c \<times> cell) list" where
  "optimize_portfolio minimize df =
     (case sharpe_problem df of
        Inl e \<Rightarrow> Inl e
      | Inr p \<Rightarrow> Inr (py_dict (zip (map fst (columns df)) (minimize p))))"

section \<open>Monte Carlo simulator\<close>

text \<open>
  numpy's global generator: the sequence \<open>z\<close> of standard normal draws it will hand out
  is fixed by its seed, and its state is the number of draws already taken.
  \<^verbatim>\<open>np.random.normal(loc, scale)\<close> raises for a negative scale and returns
  \<open>loc + scale * z\<close> otherwise, taking one draw.
\<close>

type_synonym rng = nat

definition normal_value :: "(nat \<Rightarrow> real) \<Rightarrow> cell \<Rightarrow> cell \<Rightarrow> rng \<Rightarrow> cell" where
  "normal_value z loc scale g = cadd loc (cmul scale (Num (z g)))"

definition negative_scale :: "cell \<Rightarrow> bool" where
  "negative_scale scale = (case scale of Num a \<Rightarrow> a < 0 | NInf \<Rightarrow> True | _ \<Rightarrow> False)"

definition normal :: "(nat \<Rightarrow> real) \<Rightarrow> cell \<Rightarrow> cell \<Rightarrow> rng \<Rightarrow> error + cell \<times> rng" where
  "normal z loc scale g =
     (if negative_scale scale then Inl ValueError
      else Inr (normal_value z loc scale g, Suc g))"

text \<open>
  \<^verbatim>\<open>frame[label] = values\<close> with a list: a frame without rows takes the positions of
  the list as its index (columns it already has are filled with NaN); otherwise the list
  must be as long as the index. A label that is present is replaced in place.
\<close>

definition setitem :: "(nat, 'c) frame \<Rightarrow> 'c \<Rightarrow> cell list \<Rightarrow> error + (nat, 'c) frame" where
  "setitem fr label vs =
     (if index fr = [] \<and> vs \<noteq> [] then
        Inr \<lparr>index = [0..<length vs],
             columns = dict_set (map (\<lambda>col. (fst col, replicate (length vs) NaN)) (columns fr))
                         label vs\<rparr>
      else if length vs \<noteq> length (index fr) then Inl ValueError
      else Inr \<lparr>index = index fr, columns = dict_set (columns fr) label vs\<rparr>)"

text \<open>
  The inner loop, \<^verbatim>\<open>for y in range(days)\<close>, over the list of its \<open>y\<close>:
  \<^verbatim>\<open>
      price = price_series[count] * (1 + np.random.normal(daily_return, daily_vol))
      price_series.append(price)
      count += 1
  \<close>
\<close>

fun simulate_days ::
  "(nat \<Rightarrow> real) \<Rightarrow> cell \<Rightarrow> cell \<Rightarrow> nat list \<Rightarrow> cell list \<Rightarrow> nat \<Rightarrow> rng
   \<Rightarrow> error + cell list \<times> nat \<times> rng" where
  "simulate_days z daily_return daily_vol [] price_series count g = Inr (price_series, count, g)"
| "simulate_days z daily_return daily_vol (y # ys) price_series count g =
     (if length price_series \<le> count then Inl IndexError
      else case normal z daily_return daily_vol g of
             Inl e \<Rightarrow> Inl e
           | Inr (shock, g') \<Rightarrow>
               simulate_days z daily_return daily_vol ys
                 (price_series @ [cmul (price_series ! count) (cadd (Num 1) shock)])
                 (count + 1) g')"

text \<open>
  The outer loop, \<^verbatim>\<open>for x in range(num_simulations)\<close>:
  \<^verbatim>\<open>
      count = 0
      price_series = []
      price = last_price * (1 + np.random.normal(0, daily_vol))
      price_series.append(price)
      for y in range(days): ...
      simulation_df[x] = price_series
  \<close>
\<close>

fun simulate_runs ::
  "(nat \<Rightarrow> real) \<Rightarrow> cell \<Rightarrow> cell \<Rightarrow> cell \<Rightarrow> nat list \<Rightarrow> nat list \<Rightarrow> (nat, nat) frame \<Rightarrow> rng
   \<Rightarrow> error + (nat, nat) frame \<times> rng" where
  "simulate_runs z last_price daily_return daily_vol days [] simulation_df g =
     Inr (simulation_df, g)"
| "simulate_runs z last_price daily_return daily_vol days (x # xs) simulation_df g =
     (case normal z (Num 0) daily_vol g of
        Inl e \<Rightarrow> Inl e
      | Inr (shock, g1) \<Rightarrow>
          (case simulate_days z daily_return daily_vol days
                  [cmul last_price (cadd (Num 1) shock)] 0 g1 of
             Inl e \<Rightarrow> Inl e
           | Inr (price_series, count, g2) \<Rightarrow>
               (case setitem simulation_df x price_series of
                  Inl e \<Rightarrow> Inl e
                | Inr simulation_df' \<Rightarrow>
                    simulate_runs z last_price daily_return daily_vol days xs simulation_df' g2)))"

text \<open>
  The statistics of the first step:
  \<^verbatim>\<open>
      last_price = df.iloc[-1].mean()
      returns = df.pct_change().dropna()
      daily_vol = returns.std().mean()
      daily_return = returns.mean().mean()
  \<close>
  \<open>mc_last_price\<close> is read only for a frame with a row.
\<close>

definition mc_last_price :: "('i, 'c) frame \<Rightarrow> cell" where
  "mc_last_price df = series_mean (row_at df (length (index df) - 1))"

definition mc_daily_vol :: "('i, 'c) frame \<Rightarrow> cell" where
  "mc_daily_vol df = series_mean (frame_std (dropna (pct_change df)))"

definition mc_daily_return :: "('i, 'c) frame \<Rightarrow> cell" where
  "mc_daily_return df = series_mean (frame_mean (dropna (pct_change df)))"

text \<open>\<^verbatim>\<open>range(n)\<close> of a Python integer: empty when \<open>n\<close> is not positive.\<close>

definition py_range :: "int \<Rightarrow> nat list" where
  "py_range n = [0..<nat n]"

text \<open>
  \<^verbatim>\<open>def run_monte_carlo(df, num_simulations=200, days=252)\<close>: the result is the
  frame \<^verbatim>\<open>simulation_df\<close> and the state of the generator after the call.
\<close>

definition run_monte_carlo ::
  "(nat \<Rightarrow> real) \<Rightarrow> ('i, 'c) frame \<Rightarrow> int \<Rightarrow> int \<Rightarrow> rng \<Rightarrow> error + (nat, nat) frame \<times> rng" where
  "run_monte_carlo z df num_simulations days g =
     (if index df = [] then Inl IndexError
      else simulate_runs z (mc_last_price df) (mc_daily_return df) (mc_daily_vol df)
             (py_range days) (py_range num_simulations) \<lparr>index = [], columns = []\<rparr> g)"


section \<open>Conditions on inputs, and example inputs\<close>

definition cell_at :: "('i, 'c) frame \<Rightarrow> nat \<Rightarrow> nat \<Rightarrow> cell" where
  "cell_at fr j t = snd (columns fr ! j) ! t"

definition finite_cells :: "('i, 'c) frame \<Rightarrow> bool" where
  "finite_cells fr = list_all (\<lambda>col. list_all is_finite (snd col)) (columns fr)"

text \<open>No two consecutive values of the column are both zero.\<close>

definition no_zero_run :: "cell list \<Rightarrow> bool" where
  "no_zero_run xs = list_all (\<lambda>p. \<not> (fst p = Num 0 \<and> snd p = Num 0)) (zip xs (tl xs))"

text \<open>Three days of two tickers; two days of one ticker whose price is 0 on both.\<close>

definition sample_prices :: "(nat, string) frame" where
  "sample_prices =
     \<lparr>index = [0, 1, 2],
      columns = [(''AAPL'', [Num 100, Num 110, Num 121]), (''MSFT'', [Num 50, Num 40, Num 60])]\<rparr>"

definition flat_zero_prices :: "(nat, string) frame" where
  "flat_zero_prices = \<lparr>index = [0, 1], columns = [(''AAPL'', [Num 0, Num 0])]\<rparr>"

text \<open>The number a finite cell holds.\<close>

fun num_of :: "cell \<Rightarrow> real" where
  "num_of (Num a) = a"
| "num_of c = 0"

definition nonzero_cells :: "('i, 'c) frame \<Rightarrow> bool" where
  "nonzero_cells fr = list_all (\<lambda>col. list_all (\<lambda>x. x \<noteq> Num 0) (snd col)) (columns fr)"




section \<open>The statistics in the words of the specification\<close>

text \<open>
  On the real numbers: the daily returns \<open>r[t] = price[t] / price[t-1] - 1\<close> of a
  ticker's prices, and the mean. These are what the code's results are compared with.
\<close>

definition spec_daily_returns :: "real list \<Rightarrow> real list" where
  "spec_daily_returns ps = map (\<lambda>t. ps ! Suc t / ps ! t - 1) [0..<length ps - 1]"

definition spec_mean :: "real list \<Rightarrow> real" where
  "spec_mean xs = sum_list xs / real (length xs)"

section \<open>The simulated path in the words of the specification\<close>

text \<open>
  A path starts from \<open>last_price\<close> with one shock \<open>1 + Normal(0, daily_vol)\<close> and
  then compounds: \<open>price[t] = price[t-1] * (1 + Normal(daily_return, daily_vol))\<close>, each
  shock being the next draw of the generator (\<open>g\<close> is the position of the first).
\<close>

fun spec_walk :: "(nat \<Rightarrow> real) \<Rightarrow> cell \<Rightarrow> cell \<Rightarrow> nat \<Rightarrow> cell \<Rightarrow> rng \<Rightarrow> cell list" where
  "spec_walk z daily_return daily_vol 0 price g = []"
| "spec_walk z daily_return daily_vol (Suc n) price g =
     (let price' = cmul price (cadd (Num 1) (normal_value z daily_return daily_vol g))
      in price' # spec_walk z daily_return daily_vol n price' (Suc g))"

definition spec_path :: "(nat \<Rightarrow> real) \<Rightarrow> cell \<Rightarrow> cell \<Rightarrow> cell \<Rightarrow> nat \<Rightarrow> rng \<Rightarrow> cell list" where
  "spec_path z last_price daily_return daily_vol days g =
     (let price = cmul last_price (cadd (Num 1) (normal_value z (Num 0) daily_vol g))
      in price # spec_walk z daily_return daily_vol days price (Suc g))"


text \<open>
  For examples: a generator whose draws are all 0, and the parts of a result that the
  claims speak of (the shape of the frame, and the values of the column at a position).
\<close>

definition still_draws :: "nat \<Rightarrow> real" where
  "still_draws k = 0"

definition shape_of :: "error + (nat, nat) frame \<times> rng \<Rightarrow> error + nat \<times> nat" where
  "shape_of r = map_sum id (\<lambda>p. (nrows (fst p), ncols (fst p))) r"


section \<open>The optimisation problem in the words of the specification\<close>

text \<open>
  On the real numbers, from the daily returns of every ticker: the annualized mean
  returns \<open>mu\<close> (mean daily return times 252), the annualized covariance matrix
  \<open>Sigma\<close> (sample covariance of the daily returns times 252) and the objective
  \<open>f(w) = - (w . mu) / sqrt (w^T Sigma w)\<close>.
\<close>

definition ticker_returns :: "('i, 'c) frame \<Rightarrow> real list list" where
  "ticker_returns df = map (\<lambda>col. spec_daily_returns (map num_of (snd col))) (columns df)"

definition spec_cov :: "real list \<Rightarrow> real list \<Rightarrow> real" where
  "spec_cov xs ys =
     sum_list (map2 (\<lambda>x y. (x - spec_mean xs) * (y - spec_mean ys)) xs ys)
       / real (length xs - 1)"

definition spec_mu :: "real list list \<Rightarrow> real list" where
  "spec_mu rs = map (\<lambda>r. spec_mean r * 252) rs"

definition spec_sigma :: "real list list \<Rightarrow> real list list" where
  "spec_sigma rs = map (\<lambda>ri. map (\<lambda>rj. spec_cov ri rj * 252) rs) rs"

definition rdot :: "real list \<Rightarrow> real list \<Rightarrow> real" where
  "rdot xs ys = sum_list (map2 (*) xs ys)"

definition spec_quad :: "real list list \<Rightarrow> real list \<Rightarrow> real" where
  "spec_quad sigma w = rdot w (map (\<lambda>row. rdot row w) sigma)"

definition spec_objective :: "real list \<Rightarrow> real list list \<Rightarrow> real list \<Rightarrow> real" where
  "spec_objective mu sigma w = - (rdot w mu / sqrt (spec_quad sigma w))"


text \<open>
  For examples: a solver that reports its starting point (as one that stops before its
  first step would), and a frame of two dates without any ticker.
\<close>

definition echo_solver :: solver where
  "echo_solver p = x0 p"

definition no_tickers :: "(nat, string) frame" where
  "no_tickers = \<lparr>index = [0, 1], columns = []\<rparr>"

section \<open>Price store and loader\<close>

text \<open>
  The tables of \<^verbatim>\<open>database/models.py\<close>, with the fields the dashboard reads: a
  stock has an id, a symbol and a sector; a price row refers to a stock and has a date and
  a close price. A date is its day number. The close column is nullable, and a NULL is
  read by pandas as NaN. The store is \<open>Unavailable\<close> when a query on it raises: the file
  cannot be opened, or the tables do not exist (SQLite creates an empty database for a
  file that is not there).
\<close>

type_synonym date = nat

record stock =
  s_id :: int
  s_symbol :: string
  s_sector :: string

record stock_price =
  p_stock_id :: int
  p_date :: date
  p_close :: cell

datatype store = Unavailable | Tables "stock list" "stock_price list"

text \<open>
  \<^verbatim>\<open>
  SELECT stocks.symbol, stock_prices.date, stock_prices.close
  FROM stock_prices JOIN stocks ON stock_prices.stock_id = stocks.id
  \<close>
  read by \<^verbatim>\<open>pd.read_sql\<close>: one row (symbol, date, close) per price row and
  matching stock.
\<close>

definition read_prices :: "store \<Rightarrow> error + (string \<times> date \<times> cell) list" where
  "read_prices db =
     (case db of
        Unavailable \<Rightarrow> Inl DatabaseError
      | Tables stocks prices \<Rightarrow>
          Inr (concat (map (\<lambda>p. map (\<lambda>s. (s_symbol s, p_date p, p_close p))
                                   (filter (\<lambda>s. s_id s = p_stock_id p) stocks)) prices)))"

text \<open>
  \<^verbatim>\<open>df.pivot(index='date', columns='symbol', values='close')\<close>: the dates, sorted,
  become the index and the symbols, sorted, the columns; a cell without a row is NaN; two
  rows for one date and symbol raise ValueError.
\<close>

definition close_at :: "(string \<times> date \<times> cell) list \<Rightarrow> string \<Rightarrow> date \<Rightarrow> cell" where
  "close_at rows s d =
     (case find (\<lambda>r. fst r = s \<and> fst (snd r) = d) rows of
        None \<Rightarrow> NaN
      | Some r \<Rightarrow> snd (snd r))"

definition pivot :: "(string \<times> date \<times> cell) list \<Rightarrow> error + (date, string) frame" where
  "pivot rows =
     (if \<not> distinct (map (\<lambda>r. (fst (snd r), fst r)) rows) then Inl ValueError
      else let dates = sort (remdups (map (\<lambda>r. fst (snd r)) rows));
               symbols = sort (remdups (map fst rows))
           in Inr \<lparr>index = dates,
                   columns = map (\<lambda>s. (s, map (close_at rows s) dates)) symbols\<rparr>)"

text \<open>
  \<^verbatim>\<open>
  def load_data():
      df = pd.read_sql(query, engine)
      df['date'] = pd.to_datetime(df['date'])
      df_pivot = df.pivot(index='date', columns='symbol', values='close')
      df_pivot.dropna(inplace=True)
      return df_pivot
  \<close>
  The database is the argument of the model.
\<close>

definition load_data :: "store \<Rightarrow> error + (date, string) frame" where
  "load_data db =
     (case read_prices db of
        Inl e \<Rightarrow> Inl e
      | Inr df \<Rightarrow>
          (case pivot df of
             Inl e \<Rightarrow> Inl e
           | Inr df_pivot \<Rightarrow> Inr (dropna df_pivot)))"

section \<open>Dashboard\<close>

text \<open>
  Both loaders of \<^verbatim>\<open>app.py\<close> carry \<^verbatim>\<open>@st.cache_data\<close> and take no argument:
  the value a call returned is kept for the life of the process and later calls return it
  without running the function; an exception is not kept. The cache is a state of the
  model, empty in a fresh process.
\<close>

record cache =
  data_cache :: "(date, string) frame option"
  sector_cache :: "(string \<times> string) list option"

definition cold_cache :: cache where
  "cold_cache = \<lparr>data_cache = None, sector_cache = None\<rparr>"

text \<open>
  \<^verbatim>\<open>
  @st.cache_data
  def get_data():
      df = load_data()
      df.index = pd.to_datetime(df.index)
      return df
  \<close>
  The index conversion leaves the day numbers of the model as they are.
\<close>

definition get_data :: "store \<Rightarrow> cache \<Rightarrow> (error + (date, string) frame) \<times> cache" where
  "get_data db c =
     (case data_cache c of
        Some df \<Rightarrow> (Inr df, c)
      | None \<Rightarrow>
          (case load_data db of
             Inl e \<Rightarrow> (Inl e, c)
           | Inr df \<Rightarrow> (Inr df, c\<lparr>data_cache := Some df\<rparr>)))"

text \<open>
  \<^verbatim>\<open>
  @st.cache_data
  def get_sector_map():
      df_meta = pd.read_sql("SELECT symbol, sector FROM stocks", engine)
      return df_meta.set_index('symbol')['sector'].to_dict()
  \<close>
\<close>

definition read_sectors :: "store \<Rightarrow> error + (string \<times> string) list" where
  "read_sectors db =
     (case db of
        Unavailable \<Rightarrow> Inl DatabaseError
      | Tables stocks prices \<Rightarrow> Inr (py_dict (map (\<lambda>s. (s_symbol s, s_sector s)) stocks)))"

definition get_sector_map :: "store \<Rightarrow> cache \<Rightarrow> (error + (string \<times> string) list) \<times> cache" where
  "get_sector_map db c =
     (case sector_cache c of
        Some m \<Rightarrow> (Inr m, c)
      | None \<Rightarrow>
          (case read_sectors db of
             Inl e \<Rightarrow> (Inl e, c)
           | Inr m \<Rightarrow> (Inr m, c\<lparr>sector_cache := Some m\<rparr>)))"

text \<open>
  \<^verbatim>\<open>df.loc[mask, labels]\<close>: the rows where the mask holds and the columns named, in
  the order named; KeyError for a label that is no column.
\<close>

definition frame_loc :: "('i, 'c) frame \<Rightarrow> bool list \<Rightarrow> 'c list \<Rightarrow> error + ('i, 'c) frame" where
  "frame_loc fr keep labels =
     (if list_all (\<lambda>l. l \<in> set (map fst (columns fr))) labels then
        Inr \<lparr>index = take_rows keep (index fr),
             columns = map (\<lambda>l. (l, take_rows keep (the (map_of (columns fr) l)))) labels\<rparr>
      else Inl KeyError)"

text \<open>
  What the page shows, in order. The two messages are
  \<^verbatim>\<open>st.error("Database Error. Run 'python -m database.ingest' first.")\<close> and
  \<^verbatim>\<open>st.warning("Please select at least one asset.")\<close>; \<open>StStop\<close> is
  \<^verbatim>\<open>st.stop()\<close>, which ends the script run; \<open>Metrics\<close> is the first call into the
  analytics module with its result; \<open>Uncaught\<close> is an exception no handler catches, which
  Streamlit shows as a stack trace.
\<close>

datatype message = RunIngestionFirst | SelectAtLeastOneAsset

datatype ui_event =
    StError message
  | StWarning message
  | StStop
  | Metrics "(date, string) frame" "string series"
  | Uncaught error

text \<open>
  The sidebar (lines 54 to 116 of \<^verbatim>\<open>app.py\<close>: date inputs, quick-select buttons, the
  multiselect) is Streamlit's code driven by the user: it is a parameter of the model,
  which from the loaded prices and the sector map gives the dates and tickers chosen, or
  raises.
\<close>

record sidebar =
  start_date :: date
  end_date :: date
  selected_tickers :: "string list"

type_synonym widgets = "(date, string) frame \<Rightarrow> (string \<times> string) list \<Rightarrow> error + sidebar"

text \<open>
  One run of the script of \<^verbatim>\<open>app.py\<close>, up to its first call into the analytics
  module, with the cache it starts from and the cache it leaves:
  \<^verbatim>\<open>
  try:
      df_prices = get_data()
      sector_map = get_sector_map()
  except Exception:
      st.error(...)
      st.stop()
  ...
  if not selected_tickers:
      st.warning("Please select at least one asset.")
      st.stop()
  mask = (df_prices.index.date >= start_date) & (df_prices.index.date <= end_date)
  filtered_prices = df_prices.loc[mask, selected_tickers]
  returns, volatility = calculate_metrics(filtered_prices)
  \<close>
  The rest of the page (cards, tabs, the buttons that call the optimizer and the
  simulator) comes after and is not modelled.
\<close>

definition load_all ::
  "store \<Rightarrow> cache \<Rightarrow> (error + (date, string) frame \<times> (string \<times> string) list) \<times> cache" where
  "load_all db c =
     (case get_data db c of
        (Inl e, c1) \<Rightarrow> (Inl e, c1)
      | (Inr df_prices, c1) \<Rightarrow>
          (case get_sector_map db c1 of
             (Inl e, c2) \<Rightarrow> (Inl e, c2)
           | (Inr sector_map, c2) \<Rightarrow> (Inr (df_prices, sector_map), c2)))"

definition dashboard :: "widgets \<Rightarrow> store \<Rightarrow> cache \<Rightarrow> ui_event list \<times> cache" where
  "dashboard sidebar_of db c =
     (case load_all db c of
        (Inl e, c') \<Rightarrow> ([StError RunIngestionFirst, StStop], c')
      | (Inr (df_prices, sector_map), c') \<Rightarrow>
          (case sidebar_of df_prices sector_map of
             Inl e \<Rightarrow> ([Uncaught e], c')
           | Inr sb \<Rightarrow>
               if selected_tickers sb = [] then ([StWarning SelectAtLeastOneAsset, StStop], c')
               else
                 (case frame_loc df_prices
                         (map (\<lambda>d. start_date sb \<le> d \<and> d \<le> end_date sb) (index df_prices))
                         (selected_tickers sb) of
                    Inl e \<Rightarrow> ([Uncaught e], c')
                  | Inr filtered_prices \<Rightarrow>
                      (case calculate_metrics filtered_prices of
                         (returns, volatility) \<Rightarrow> ([Metrics returns volatility], c')))))"

section \<open>Example store and sidebars\<close>

text \<open>
  A store of two stocks in which MSFT has no row for day 2 and a NULL close on day 3, with
  the rows its query gives; a store whose tables are empty; a sidebar whose widgets raise,
  and one in which the user has deselected every ticker.
\<close>

definition sample_store :: store where
  "sample_store =
     Tables [\<lparr>s_id = 1, s_symbol = ''AAPL'', s_sector = ''Technology''\<rparr>,
             \<lparr>s_id = 2, s_symbol = ''MSFT'', s_sector = ''Technology''\<rparr>]
            [\<lparr>p_stock_id = 2, p_date = 1, p_close = Num 50\<rparr>,
             \<lparr>p_stock_id = 1, p_date = 1, p_close = Num 100\<rparr>,
             \<lparr>p_stock_id = 1, p_date = 2, p_close = Num 110\<rparr>,
             \<lparr>p_stock_id = 1, p_date = 3, p_close = Num 121\<rparr>,
             \<lparr>p_stock_id = 2, p_date = 3, p_close = NaN\<rparr>]"

definition sample_rows :: "(string \<times> date \<times> cell) list" where
  "sample_rows = [(''MSFT'', 1, Num 50), (''AAPL'', 1, Num 100), (''AAPL'', 2, Num 110),
                  (''AAPL'', 3, Num 121), (''MSFT'', 3, NaN)]"

definition empty_store :: store where
  "empty_store = Tables [] []"

definition failing_sidebar :: widgets where
  "failing_sidebar df_prices sector_map = Inl WidgetError"

definition unselecting_sidebar :: widgets where
  "unselecting_sidebar df_prices sector_map =
     Inr \<lparr>start_date = 0, end_date = 0, selected_tickers = []\<rparr>"

section \<open>What a call of the analytics module can touch\<close>

text \<open>
  The functions above give the value of each operation. What a call does besides is read
  off a second embedding, statement by statement, over the state that the module can
  reach: the file \<^verbatim>\<open>finance.db\<close> (absent, or a store), numpy's global generator, and
  the DataFrame objects of the process, held by address. A frame that the caller passes is
  an address. Series, matrices, Python lists and numbers are values; what is written to
  the console is not part of the state.

  A column label is a ticker symbol or the number of a simulation run.
\<close>

datatype label = Ticker string | Run nat

type_synonym table = "(date, label) frame"

type_synonym addr = nat

record world =
  finance_db :: "store option"
  generator :: rng
  heap :: "table list"

definition relabel :: "('c \<Rightarrow> 'd) \<Rightarrow> ('i, 'c) frame \<Rightarrow> ('i, 'd) frame" where
  "relabel f fr = \<lparr>index = index fr, columns = map (\<lambda>col. (f (fst col), snd col)) (columns fr)\<rparr>"

text \<open>
  A pandas call that returns a new frame allocates it and leaves its receiver as it is:
  \<^verbatim>\<open>pd.DataFrame()\<close>, \<^verbatim>\<open>df.pct_change()\<close>, \<^verbatim>\<open>df.dropna()\<close>, \<^verbatim>\<open>df.pivot(...)\<close>.
  \<^verbatim>\<open>df.dropna(inplace=True)\<close> and \<^verbatim>\<open>df[label] = values\<close> overwrite the object at
  their address.
\<close>

definition new_frame :: "table \<Rightarrow> world \<Rightarrow> addr \<times> world" where
  "new_frame fr w = (length (heap w), w\<lparr>heap := heap w @ [fr]\<rparr>)"

definition pct_change_st :: "addr \<Rightarrow> world \<Rightarrow> addr \<times> world" where
  "pct_change_st a w = new_frame (pct_change (heap w ! a)) w"

definition dropna_st :: "addr \<Rightarrow> world \<Rightarrow> addr \<times> world" where
  "dropna_st a w = new_frame (dropna (heap w ! a)) w"

definition dropna_inplace_st :: "addr \<Rightarrow> world \<Rightarrow> world" where
  "dropna_inplace_st a w = w\<lparr>heap := (heap w)[a := dropna (heap w ! a)]\<rparr>"

definition setitem_st :: "addr \<Rightarrow> label \<Rightarrow> cell list \<Rightarrow> world \<Rightarrow> (error + unit) \<times> world" where
  "setitem_st a l vs w =
     (case setitem (heap w ! a) l vs of
        Inl e \<Rightarrow> (Inl e, w)
      | Inr fr \<Rightarrow> (Inr (), w\<lparr>heap := (heap w)[a := fr]\<rparr>))"

text \<open>
  \<^verbatim>\<open>pd.read_sql(query, create_engine('sqlite:///finance.db'))\<close>: the connection opens
  the file, and SQLite creates an empty database when there is none; the query then fails,
  since the new database has no table. The frame of rows that the call returns is local to
  \<^verbatim>\<open>load_data\<close> and is the list of its rows; the conversion of its date column changes
  nothing in a model whose dates are day numbers.
\<close>

definition read_sql_st :: "world \<Rightarrow> (error + (string \<times> date \<times> cell) list) \<times> world" where
  "read_sql_st w =
     (case finance_db w of
        None \<Rightarrow> (Inl DatabaseError, w\<lparr>finance_db := Some Unavailable\<rparr>)
      | Some db \<Rightarrow> (read_prices db, w))"

text \<open>
  \<^verbatim>\<open>np.random.normal(loc, scale)\<close> on the global generator: one draw is taken.
\<close>

definition normal_st :: "(nat \<Rightarrow> real) \<Rightarrow> cell \<Rightarrow> cell \<Rightarrow> world \<Rightarrow> (error + cell) \<times> world" where
  "normal_st z loc scale w =
     (if negative_scale scale then (Inl ValueError, w)
      else (Inr (normal_value z loc scale (generator w)), w\<lparr>generator := Suc (generator w)\<rparr>))"

text \<open>
  The four operations, statement by statement. Each returns its value, or the exception
  raised, and the state it leaves.
  \<^verbatim>\<open>
  def load_data():
      df = pd.read_sql(query, engine)
      df['date'] = pd.to_datetime(df['date'])
      df_pivot = df.pivot(index='date', columns='symbol', values='close')
      df_pivot.dropna(inplace=True)
      return df_pivot
  \<close>
\<close>

definition load_data_st :: "world \<Rightarrow> (error + addr) \<times> world" where
  "load_data_st w =
     (case read_sql_st w of
        (Inl e, w1) \<Rightarrow> (Inl e, w1)
      | (Inr df, w1) \<Rightarrow>
          (case pivot df of
             Inl e \<Rightarrow> (Inl e, w1)
           | Inr fr \<Rightarrow>
               (case new_frame (relabel Ticker fr) w1 of
                  (df_pivot, w2) \<Rightarrow> (Inr df_pivot, dropna_inplace_st df_pivot w2))))"

text \<open>
  \<^verbatim>\<open>
  def calculate_metrics(df):
      returns = df.pct_change().dropna()
      volatility = returns.std() * np.sqrt(252)
      return returns, volatility
  \<close>
\<close>

definition calculate_metrics_st :: "addr \<Rightarrow> world \<Rightarrow> (addr \<times> label series) \<times> world" where
  "calculate_metrics_st df w =
     (case pct_change_st df w of
        (changes, w1) \<Rightarrow>
          (case dropna_st changes w1 of
             (returns, w2) \<Rightarrow>
               (let volatility = series_scale (frame_std (heap w2 ! returns)) (csqrt_cell (Num 252))
                in ((returns, volatility), w2))))"

text \<open>
  \<^verbatim>\<open>
  def optimize_portfolio(df):
      mu = df.pct_change().mean() * 252
      S = df.pct_change().cov() * 252
      ...
      num_assets = len(df.columns)
      initial_guess = num_assets * [1. / num_assets]
      result = minimize(negative_sharpe, initial_guess, method='SLSQP',
                        bounds=bounds, constraints=constraints)
      optimal_weights = dict(zip(df.columns, result.x))
      return optimal_weights
  \<close>
  The solver is the parameter it is above: a function of the problem, which touches
  nothing of the state.
\<close>

definition optimize_portfolio_st ::
  "solver \<Rightarrow> addr \<Rightarrow> world \<Rightarrow> (error + (label \<times> cell) list) \<times> world" where
  "optimize_portfolio_st minimize df w =
     (case pct_change_st df w of
        (changes, w1) \<Rightarrow>
          (let mu = series_scale (frame_mean (heap w1 ! changes)) (Num 252)
           in case pct_change_st df w1 of
                (changes', w2) \<Rightarrow>
                  (let S = map (map (\<lambda>c. cmul c (Num 252))) (frame_cov (heap w2 ! changes'));
                       num_assets = length (columns (heap w2 ! df))
                   in if num_assets = 0 then (Inl ZeroDivisionError, w2)
                      else let result_x = minimize
                                 \<lparr>objective = negative_sharpe mu S,
                                  x0 = replicate num_assets (Num (1 / real num_assets)),
                                  solver_method = SLSQP,
                                  bounds = replicate num_assets (Num 0, Num 1),
                                  eq_constraint = (\<lambda>x. csub (csum x) (Num 1))\<rparr>
                           in (Inr (py_dict (zip (map fst (columns (heap w2 ! df))) result_x)),
                               w2))))"

text \<open>
  \<^verbatim>\<open>
  def run_monte_carlo(df, num_simulations=200, days=252):
      last_price = df.iloc[-1].mean()
      returns = df.pct_change().dropna()
      daily_vol = returns.std().mean()
      daily_return = returns.mean().mean()
      simulation_df = pd.DataFrame()
      for x in range(num_simulations):
          count = 0
          price_series = []
          price = last_price * (1 + np.random.normal(0, daily_vol))
          price_series.append(price)
          for y in range(days):
              price = price_series[count] * (1 + np.random.normal(daily_return, daily_vol))
              price_series.append(price)
              count += 1
          simulation_df[x] = price_series
      return simulation_df
  \<close>
\<close>

fun simulate_days_st ::
  "(nat \<Rightarrow> real) \<Rightarrow> cell \<Rightarrow> cell \<Rightarrow> nat list \<Rightarrow> cell list \<Rightarrow> nat \<Rightarrow> world
   \<Rightarrow> (error + cell list \<times> nat) \<times> world" where
  "simulate_days_st z daily_return daily_vol [] price_series count w =
     (Inr (price_series, count), w)"
| "simulate_days_st z daily_return daily_vol (y # ys) price_series count w =
     (if length price_series \<le> count then (Inl IndexError, w)
      else case normal_st z daily_return daily_vol w of
             (Inl e, w') \<Rightarrow> (Inl e, w')
           | (Inr shock, w') \<Rightarrow>
               simulate_days_st z daily_return daily_vol ys
                 (price_series @ [cmul (price_series ! count) (cadd (Num 1) shock)])
                 (count + 1) w')"

fun simulate_runs_st ::
  "(nat \<Rightarrow> real) \<Rightarrow> cell \<Rightarrow> cell \<Rightarrow> cell \<Rightarrow> nat list \<Rightarrow> nat list \<Rightarrow> addr \<Rightarrow> world
   \<Rightarrow> (error + unit) \<times> world" where
  "simulate_runs_st z last_price daily_return daily_vol days [] simulation_df w = (Inr (), w)"
| "simulate_runs_st z last_price daily_return daily_vol days (x # xs) simulation_df w =
     (case normal_st z (Num 0) daily_vol w of
        (Inl e, w1) \<Rightarrow> (Inl e, w1)
      | (Inr shock, w1) \<Rightarrow>
          (case simulate_days_st z daily_return daily_vol days
                  [cmul last_price (cadd (Num 1) shock)] 0 w1 of
             (Inl e, w2) \<Rightarrow> (Inl e, w2)
           | (Inr (price_series, count), w2) \<Rightarrow>
               (case setitem_st simulation_df (Run x) price_series w2 of
                  (Inl e, w3) \<Rightarrow> (Inl e, w3)
                | (Inr u, w3) \<Rightarrow>
                    simulate_runs_st z last_price daily_return daily_vol days xs
                      simulation_df w3)))"

definition run_monte_carlo_st ::
  "(nat \<Rightarrow> real) \<Rightarrow> addr \<Rightarrow> int \<Rightarrow> int \<Rightarrow> world \<Rightarrow> (error + addr) \<times> world" where
  "run_monte_carlo_st z df num_simulations days w =
     (if index (heap w ! df) = [] then (Inl IndexError, w)
      else
        let last_price = series_mean (row_at (heap w ! df) (length (index (heap w ! df)) - 1))
        in case pct_change_st df w of
             (changes, w1) \<Rightarrow>
               (case dropna_st changes w1 of
                  (returns, w2) \<Rightarrow>
                    (let daily_vol = series_mean (frame_std (heap w2 ! returns));
                         daily_return = series_mean (frame_mean (heap w2 ! returns))
                     in case new_frame \<lparr>index = [], columns = []\<rparr> w2 of
                          (simulation_df, w3) \<Rightarrow>
                            (case simulate_runs_st z last_price daily_return daily_vol
                                    (py_range days) (py_range num_simulations)
                                    simulation_df w3 of
                               (Inl e, w4) \<Rightarrow> (Inl e, w4)
                             | (Inr u, w4) \<Rightarrow> (Inr simulation_df, w4)))))"

text \<open>
  The frame at the address that a call returned, and examples: a generator whose draw
  number \<open>k\<close> is \<open>k\<close>; a matrix of one ticker whose daily returns 0, 1, 2 have mean 1
  and standard deviation 1; a process that holds this matrix beside the example store,
  with the generator at a given position; and one in whose directory there is no
  \<^verbatim>\<open>finance.db\<close>.
\<close>

definition result_frame :: "(error + addr) \<times> world \<Rightarrow> error + table" where
  "result_frame r = map_sum id (\<lambda>a. heap (snd r) ! a) (fst r)"

definition counting_draws :: "nat \<Rightarrow> real" where
  "counting_draws k = real k"

definition walk_prices :: table where
  "walk_prices = \<lparr>index = [0, 1, 2, 3],
                  columns = [(Ticker ''AAPL'', [Num 1, Num 1, Num 2, Num 6])]\<rparr>"

definition seeded_world :: "rng \<Rightarrow> world" where
  "seeded_world g = \<lparr>finance_db = Some sample_store, generator = g, heap = [walk_prices]\<rparr>"

definition fresh_world :: world where
  "fresh_world = \<lparr>finance_db = None, generator = 0, heap = [walk_prices]\<rparr>"


section \<open>Properties of the metrics calculator\<close>

subsection \<open>Cells and columns\<close>

lemma is_finite_iff: "is_finite c \<longleftrightarrow> (\<exists>a. c = Num a)"
  by (cases c) auto

lemma ffill_from_id: "list_all (\<lambda>x. x \<noteq> NaN) xs \<Longrightarrow> ffill_from p xs = xs"
  by (induction xs arbitrary: p) auto

lemma ffill_id: "list_all (\<lambda>x. x \<noteq> NaN) xs \<Longrightarrow> ffill xs = xs"
  by (simp add: ffill_def ffill_from_id)

lemma finite_notna: "list_all is_finite xs \<Longrightarrow> list_all (\<lambda>x. x \<noteq> NaN) xs"
  by (induction xs) (auto simp: is_finite_iff)

lemma length_shift1: "length (shift1 xs) = length xs"
  by (simp add: shift1_def)

lemma shift1_nth: "t < length xs \<Longrightarrow> shift1 xs ! t = (if t = 0 then NaN else xs ! (t - 1))"
  by (cases t) (auto simp: shift1_def nth_butlast)

lemma length_ffill_from: "length (ffill_from p xs) = length xs"
  by (induction xs arbitrary: p) auto

lemma length_pct_change_col: "length (pct_change_col xs) = length xs"
  by (simp add: pct_change_col_def Let_def length_shift1 ffill_def length_ffill_from)

lemma cdiv_NaN_right: "cdiv x NaN = NaN"
  by (cases x) auto

lemma cadd_NaN_right: "cadd x NaN = NaN"
  by (cases x) auto

lemma cmul_NaN_right: "cmul x NaN = NaN"
  by (cases x) auto

lemma pct_change_col_nth:
  assumes "list_all (\<lambda>x. x \<noteq> NaN) xs" "t < length xs"
  shows "pct_change_col xs ! t =
         (if t = 0 then NaN else csub (cdiv (xs ! t) (xs ! (t - 1))) (Num 1))"
  using assms by (simp add: pct_change_col_def ffill_id length_shift1 shift1_nth csub_def cdiv_NaN_right)

lemma return_notna:
  "\<not> (a = 0 \<and> b = 0) \<Longrightarrow> csub (cdiv (Num a) (Num b)) (Num 1) \<noteq> NaN"
  by (auto simp: csub_def)

lemma take_rows_tl: "take_rows (map (\<lambda>t. t \<noteq> 0) [0..<length xs]) xs = tl xs"
proof (cases xs)
  case Nil
  then show ?thesis by (simp add: take_rows_def)
next
  case (Cons x ys)
  have "[0..<length xs] = 0 # map Suc [0..<length ys]"
    using Cons by (simp add: upt_conv_Cons map_Suc_upt del: upt_Suc)
  moreover have "map fst (filter snd (zip ys (map (\<lambda>t. True) [0..<length ys]))) = ys"
    by (induction ys rule: rev_induct) auto
  ultimately show ?thesis
    using Cons by (simp add: take_rows_def comp_def)
qed


lemma no_zero_run_nth:
  assumes "no_zero_run xs" "Suc t < length xs"
  shows "\<not> (xs ! t = Num 0 \<and> xs ! Suc t = Num 0)"
proof -
  have "t < length (zip xs (tl xs))" using assms(2) by simp
  moreover have "zip xs (tl xs) ! t = (xs ! t, xs ! Suc t)"
    using assms(2) by (simp add: nth_tl)
  ultimately show ?thesis
    using assms(1) unfolding no_zero_run_def list_all_length by fastforce
qed

lemma return_cell_notna:
  assumes fin: "list_all is_finite xs" and nz: "no_zero_run xs"
    and t: "0 < t" "t < length xs"
  shows "pct_change_col xs ! t \<noteq> NaN"
proof -
  obtain a where a: "xs ! t = Num a"
    using fin t by (auto simp: list_all_length is_finite_iff)
  have "t - 1 < length xs" using t by simp
  then obtain b where b: "xs ! (t - 1) = Num b"
    using fin unfolding list_all_length is_finite_iff by blast
  have "\<not> (xs ! (t - 1) = Num 0 \<and> xs ! Suc (t - 1) = Num 0)"
    using no_zero_run_nth [OF nz, of "t - 1"] t by simp
  then have "\<not> (a = 0 \<and> b = 0)" using a b t by auto
  then have "csub (cdiv (Num a) (Num b)) (Num 1) \<noteq> NaN" by (rule return_notna)
  moreover have "pct_change_col xs ! t = csub (cdiv (Num a) (Num b)) (Num 1)"
    using pct_change_col_nth [OF finite_notna [OF fin] t(2)] t a b
    by (simp del: cdiv.simps)
  ultimately show ?thesis by simp
qed

lemma row_complete_pct_change:
  assumes ok: "frame_ok df" and cols: "columns df \<noteq> []"
    and fin: "finite_cells df" and nz: "list_all (\<lambda>col. no_zero_run (snd col)) (columns df)"
    and t: "t < length (index df)"
  shows "row_complete (pct_change df) t = (t \<noteq> 0)"
proof (cases "t = 0")
  case True
  obtain c cs where cs: "columns df = c # cs" using cols by (cases "columns df") auto
  have "length (snd c) = length (index df)"
    using ok cs by (simp add: frame_ok_def)
  moreover have "list_all (\<lambda>x. x \<noteq> NaN) (snd c)"
    using fin cs by (simp add: finite_cells_def finite_notna)
  ultimately have "pct_change_col (snd c) ! 0 = NaN"
    using t True pct_change_col_nth [of "snd c" 0] by simp
  then show ?thesis
    using True cs by (simp add: row_complete_def pct_change_def)
next
  case False
  have "pct_change_col (snd col) ! t \<noteq> NaN" if "col \<in> set (columns df)" for col
  proof -
    have "length (snd col) = length (index df)" "list_all is_finite (snd col)"
      "no_zero_run (snd col)"
      using that ok fin nz by (auto simp: frame_ok_def finite_cells_def list_all_iff)
    then show ?thesis using return_cell_notna [of "snd col" t] False t by simp
  qed
  then show ?thesis
    using False by (simp add: row_complete_def pct_change_def list_all_iff)
qed

lemma dropna_pct_change:
  assumes ok: "frame_ok df" and cols: "columns df \<noteq> []"
    and fin: "finite_cells df" and nz: "list_all (\<lambda>col. no_zero_run (snd col)) (columns df)"
  shows "dropna (pct_change df) =
         \<lparr>index = tl (index df),
          columns = map (\<lambda>col. (fst col, tl (pct_change_col (snd col)))) (columns df)\<rparr>"
proof -
  let ?n = "length (index df)"
  have keep: "map (row_complete (pct_change df)) [0..<?n] = map (\<lambda>t. t \<noteq> 0) [0..<?n]"
    using row_complete_pct_change [OF ok cols fin nz] by simp
  have idx: "take_rows (map (\<lambda>t. t \<noteq> 0) [0..<?n]) (index df) = tl (index df)"
    by (rule take_rows_tl)
  have col: "take_rows (map (\<lambda>t. t \<noteq> 0) [0..<?n]) (pct_change_col (snd col))
             = tl (pct_change_col (snd col))" if "col \<in> set (columns df)" for col
  proof -
    have "length (pct_change_col (snd col)) = ?n"
      using that ok by (simp add: length_pct_change_col frame_ok_def list_all_iff)
    then show ?thesis using take_rows_tl [of "pct_change_col (snd col)"] by simp
  qed
  have i: "index (pct_change df) = index df"
    and c: "columns (pct_change df) = map (\<lambda>col. (fst col, pct_change_col (snd col))) (columns df)"
    by (simp_all add: pct_change_def)
  show ?thesis
    unfolding dropna_def Let_def i keep idx c
    using col by (simp add: comp_def)
qed


subsection \<open>Returns\<close>

text \<open>
  Claim C1, as the code has it. For a well-formed PriceMatrix with at least one row and
  one ticker, whose prices are finite and never zero on two consecutive dates of a ticker,
  the ReturnsMatrix of \<open>calculate_metrics\<close> is well-formed, has one row fewer than the
  PriceMatrix (the first date is dropped), keeps the ticker labels, and its entry for
  ticker \<open>j\<close> in row \<open>t\<close> is \<open>price[t+1] / price[t] - 1\<close>; row 0 is
  \<open>PriceMatrix[1] / PriceMatrix[0] - 1\<close>.
\<close>

theorem calculate_metrics_returns:
  assumes ok: "frame_ok df" and cols: "columns df \<noteq> []" and rows: "index df \<noteq> []"
    and fin: "finite_cells df" and nz: "list_all (\<lambda>col. no_zero_run (snd col)) (columns df)"
  shows "frame_ok (fst (calculate_metrics df)) \<and>
         nrows (fst (calculate_metrics df)) = nrows df - 1 \<and>
         index (fst (calculate_metrics df)) = tl (index df) \<and>
         map fst (columns (fst (calculate_metrics df))) = map fst (columns df) \<and>
         (\<forall>j<ncols df. \<forall>t<nrows df - 1.
            cell_at (fst (calculate_metrics df)) j t =
            csub (cdiv (cell_at df j (Suc t)) (cell_at df j t)) (Num 1))"
proof -
  let ?R = "fst (calculate_metrics df)"
  have R: "?R = \<lparr>index = tl (index df),
          columns = map (\<lambda>col. (fst col, tl (pct_change_col (snd col)))) (columns df)\<rparr>"
    using dropna_pct_change [OF ok cols fin nz] by (simp add: calculate_metrics_def Let_def)
  have len: "length (snd col) = length (index df)" if "col \<in> set (columns df)" for col
    using that ok by (simp add: frame_ok_def list_all_iff)
  have 1: "frame_ok ?R"
    using len by (simp add: R frame_ok_def list_all_iff length_pct_change_col)
  have 2: "nrows ?R = nrows df - 1" by (simp add: R nrows_def)
  have 3: "index ?R = tl (index df)" by (simp add: R)
  have 4: "map fst (columns ?R) = map fst (columns df)" by (simp add: R comp_def)
  have 5: "cell_at ?R j t = csub (cdiv (cell_at df j (Suc t)) (cell_at df j t)) (Num 1)"
    if j: "j < ncols df" and t: "t < nrows df - 1" for j t
  proof -
    let ?xs = "snd (columns df ! j)"
    have mem: "columns df ! j \<in> set (columns df)" using j by (simp add: ncols_def)
    have l: "length ?xs = length (index df)" using len [OF mem] .
    have "list_all is_finite ?xs"
      using fin mem unfolding finite_cells_def list_all_iff by blast
    then have na: "list_all (\<lambda>x. x \<noteq> NaN) ?xs" by (rule finite_notna)
    have "cell_at ?R j t = tl (pct_change_col ?xs) ! t"
      using j by (simp add: R cell_at_def ncols_def)
    also have "\<dots> = pct_change_col ?xs ! Suc t"
      using t l by (simp add: nth_tl length_pct_change_col nrows_def)
    also have "\<dots> = csub (cdiv (?xs ! Suc t) (?xs ! t)) (Num 1)"
      using pct_change_col_nth [OF na, of "Suc t"] t l by (simp add: nrows_def)
    finally show ?thesis by (simp add: cell_at_def)
  qed
  show ?thesis using 1 2 3 4 5 by blast
qed


theorem calculate_metrics_returns_witness:
  "frame_ok sample_prices \<and> columns sample_prices \<noteq> [] \<and> index sample_prices \<noteq> [] \<and>
   finite_cells sample_prices \<and>
   list_all (\<lambda>col. no_zero_run (snd col)) (columns sample_prices) \<and>
   nrows (fst (calculate_metrics sample_prices)) = 2 \<and>
   cell_at (fst (calculate_metrics sample_prices)) 1 0 = Num (- (1 / 5))"
proof -
  have h: "frame_ok sample_prices" "columns sample_prices \<noteq> []" "index sample_prices \<noteq> []"
    "finite_cells sample_prices"
    "list_all (\<lambda>col. no_zero_run (snd col)) (columns sample_prices)"
    by (simp_all add: sample_prices_def frame_ok_def finite_cells_def no_zero_run_def)
  have n: "nrows sample_prices = 3" "ncols sample_prices = 2"
    by (simp_all add: sample_prices_def nrows_def ncols_def)
  have c: "csub (cdiv (cell_at sample_prices 1 (Suc 0)) (cell_at sample_prices 1 0)) (Num 1)
           = Num (- (1 / 5))"
    by (simp add: sample_prices_def cell_at_def csub_def)
  from calculate_metrics_returns [OF h] n c
  have "nrows (fst (calculate_metrics sample_prices)) = 2"
    "cell_at (fst (calculate_metrics sample_prices)) 1 0 = Num (- (1 / 5))"
    by simp_all
  with h show ?thesis by simp
qed

text \<open>
  The claim as the spec states it asks only for no missing value and a row. A price of 0
  on two consecutive dates gives the return \<open>0 / 0 - 1\<close>, which is NaN, and
  \<^verbatim>\<open>dropna\<close> removes that row too: two rows of prices leave no row of returns. And
  a frame without ticker columns has no cell that could be missing, so
  \<^verbatim>\<open>dropna\<close> keeps both of its two rows.
\<close>

theorem calculate_metrics_returns_counterexample:
  "no_missing flat_zero_prices \<and> nrows flat_zero_prices = 2 \<and>
   nrows (fst (calculate_metrics flat_zero_prices)) \<noteq> nrows flat_zero_prices - 1 \<and>
   no_missing no_tickers \<and> nrows no_tickers = 2 \<and>
   nrows (fst (calculate_metrics no_tickers)) \<noteq> nrows no_tickers - 1"
  by (simp add: flat_zero_prices_def no_tickers_def no_missing_def nrows_def
      calculate_metrics_def dropna_def pct_change_def Let_def pct_change_col_def ffill_def
      shift1_def csub_def row_complete_def take_rows_def)

subsection \<open>Volatility\<close>

lemma csum_Num_aux: "foldl cadd (Num a) (map Num rs) = Num (a + sum_list rs)"
  by (induction rs arbitrary: a) (simp_all add: add.assoc)

lemma csum_Num: "csum (map Num rs) = Num (sum_list rs)"
  by (simp add: csum_def csum_Num_aux)

lemma notna_vals_Num: "notna_vals (map Num rs) = map Num rs"
  by (induction rs) (simp_all add: notna_vals_def)

lemma returns_col_Num:
  assumes fin: "list_all is_finite xs" and nz: "list_all (\<lambda>x. x \<noteq> Num 0) xs"
  shows "tl (pct_change_col xs) = map Num (spec_daily_returns (map num_of xs))"
proof (rule nth_equalityI)
  show "length (tl (pct_change_col xs)) = length (map Num (spec_daily_returns (map num_of xs)))"
    by (simp add: length_pct_change_col spec_daily_returns_def)
next
  fix t assume "t < length (tl (pct_change_col xs))"
  then have t: "Suc t < length xs" by (simp add: length_pct_change_col)
  obtain a where a: "xs ! Suc t = Num a"
    using fin t unfolding list_all_length is_finite_iff by blast
  have "t < length xs" using t by simp
  then obtain b where b: "xs ! t = Num b"
    using fin unfolding list_all_length is_finite_iff by blast
  have "xs ! t \<noteq> Num 0" using nz \<open>t < length xs\<close> by (simp add: list_all_length)
  then have b0: "b \<noteq> 0" using b by simp
  have "tl (pct_change_col xs) ! t = pct_change_col xs ! Suc t"
    using t by (simp add: nth_tl length_pct_change_col)
  also have "\<dots> = csub (cdiv (xs ! Suc t) (xs ! t)) (Num 1)"
    using pct_change_col_nth [OF finite_notna [OF fin] t] by simp
  also have "\<dots> = Num (a / b - 1)" using a b b0 by (simp add: csub_def)
  finally show "tl (pct_change_col xs) ! t = map Num (spec_daily_returns (map num_of xs)) ! t"
    using t a b by (simp add: spec_daily_returns_def)
qed

lemma length_spec_daily_returns: "length (spec_daily_returns ps) = length ps - 1"
  by (simp add: spec_daily_returns_def)

lemma nanstd_not_negative: "nanstd xs = NaN \<or> nonneg_cell (nanstd xs)"
  by (cases "nanvar xs") (auto simp: nanstd_def)




























section \<open>Properties of the Monte Carlo simulator\<close>

lemma length_spec_walk: "length (spec_walk z dr dv n p g) = n"
  by (induction n arbitrary: p g) (simp_all add: Let_def)

lemma length_spec_path: "length (spec_path z lp dr dv n g) = Suc n"
  by (simp add: spec_path_def Let_def length_spec_walk)




lemma normal_ok: "\<not> negative_scale scale \<Longrightarrow> normal z loc scale g = Inr (normal_value z loc scale g, Suc g)"
  by (simp add: normal_def)

lemma simulate_days_eq:
  assumes "\<not> negative_scale dv" "length ps = Suc count"
  shows "simulate_days z dr dv ys ps count g =
         Inr (ps @ spec_walk z dr dv (length ys) (last ps) g, count + length ys, g + length ys)"
  using assms
proof (induction ys arbitrary: ps count g)
  case Nil
  then show ?case by simp
next
  case (Cons y ys)
  have l: "ps ! count = last ps" using Cons.prems(2)
    by (metis diff_Suc_1 last_conv_nth length_0_conv nat.distinct(1))
  let ?p = "cmul (last ps) (cadd (Num 1) (normal_value z dr dv g))"
  have "simulate_days z dr dv (y # ys) ps count g =
        simulate_days z dr dv ys (ps @ [?p]) (Suc count) (Suc g)"
    using Cons.prems by (simp add: normal_ok l)
  also have "\<dots> = Inr ((ps @ [?p]) @ spec_walk z dr dv (length ys) (last (ps @ [?p])) (Suc g),
                       Suc count + length ys, Suc g + length ys)"
    using Cons.prems by (intro Cons.IH) simp_all
  finally show ?case by (simp add: Let_def)
qed

lemma dict_set_fresh: "k \<notin> fst ` set d \<Longrightarrow> dict_set d k v = d @ [(k, v)]"
  by (induction d) auto

lemma py_range_length: "length (py_range n) = nat n"
  by (simp add: py_range_def)

text \<open>The frame after the runs labelled xs, from a frame that is empty or has the index of a path.\<close>

lemma simulate_runs_eq:
  assumes nn: "\<not> negative_scale dv"
    and dist: "distinct xs" and fresh: "set xs \<inter> fst ` set (columns sim) = {}"
    and inv: "(index sim = [] \<and> columns sim = []) \<or> index sim = [0..<Suc (length ds)]"
  shows "simulate_runs z lp dr dv ds xs sim g =
         Inr (\<lparr>index = (if xs = [] then index sim else [0..<Suc (length ds)]),
               columns = columns sim @
                 map (\<lambda>i. (xs ! i, spec_path z lp dr dv (length ds) (g + i * Suc (length ds))))
                   [0..<length xs]\<rparr>,
              g + length xs * Suc (length ds))"
  using dist fresh inv
proof (induction xs arbitrary: sim g)
  case Nil
  then show ?case by simp
next
  case (Cons x xs)
  let ?D = "length ds"
  let ?ps = "spec_path z lp dr dv ?D g"
  let ?sim' = "\<lparr>index = [0..<Suc ?D], columns = columns sim @ [(x, ?ps)]\<rparr>"
  have days: "simulate_days z dr dv ds [cmul lp (cadd (Num 1) (normal_value z (Num 0) dv g))] 0 (Suc g)
              = Inr (?ps, ?D, Suc g + ?D)"
    using simulate_days_eq [OF nn, of "[cmul lp (cadd (Num 1) (normal_value z (Num 0) dv g))]" 0 z dr ds "Suc g"]
    by (simp add: spec_path_def Let_def)
  have xf: "x \<notin> fst ` set (columns sim)" using Cons.prems(2) by auto
  have len: "length ?ps = Suc ?D" by (rule length_spec_path)
  then have ne: "?ps \<noteq> []" by auto
  have set: "setitem sim x ?ps = Inr ?sim'"
  proof (cases "index sim = []")
    case True
    then have "columns sim = []" using Cons.prems(3) by auto
    then show ?thesis using True ne len by (simp add: setitem_def del: upt_Suc)
  next
    case False
    then have i: "index sim = [0..<Suc ?D]" using Cons.prems(3) by blast
    have "length ?ps = length (index sim)" unfolding i len by simp
    then show ?thesis
      using False xf i by (simp add: setitem_def dict_set_fresh del: upt_Suc)
  qed
  have step: "simulate_runs z lp dr dv ds (x # xs) sim g =
              simulate_runs z lp dr dv ds xs ?sim' (Suc g + ?D)"
    by (simp add: normal_ok [OF nn] days set)
  have "simulate_runs z lp dr dv ds xs ?sim' (Suc g + ?D) =
        Inr (\<lparr>index = (if xs = [] then index ?sim' else [0..<Suc ?D]),
              columns = columns ?sim' @
                map (\<lambda>i. (xs ! i, spec_path z lp dr dv ?D (Suc g + ?D + i * Suc ?D))) [0..<length xs]\<rparr>,
             Suc g + ?D + length xs * Suc ?D)"
    using Cons.prems by (intro Cons.IH) auto
  moreover have "[0..<length (x # xs)] = 0 # map Suc [0..<length xs]"
    by (simp add: upt_conv_Cons map_Suc_upt del: upt_Suc)
  ultimately show ?case
    unfolding step by (simp add: comp_def ac_simps del: upt_Suc)
qed


lemma negative_scale_iff: "negative_scale c \<longleftrightarrow> \<not> (c = NaN \<or> nonneg_cell c)"
  by (cases c) (auto simp: negative_scale_def)

lemma cadd_nonneg: "nonneg_cell a \<Longrightarrow> nonneg_cell b \<Longrightarrow> nonneg_cell (cadd a b)"
  by (cases a; cases b) auto

lemma foldl_cadd_nonneg:
  "nonneg_cell acc \<Longrightarrow> list_all nonneg_cell xs \<Longrightarrow> nonneg_cell (foldl cadd acc xs)"
  by (induction xs arbitrary: acc) (auto simp: cadd_nonneg)

lemma cdiv_nonneg: "nonneg_cell a \<Longrightarrow> 0 < n \<Longrightarrow> nonneg_cell (cdiv a (Num n))"
  by (cases a) auto

lemma nanmean_not_negative:
  assumes "list_all (\<lambda>x. x = NaN \<or> nonneg_cell x) xs"
  shows "nanmean xs = NaN \<or> nonneg_cell (nanmean xs)"
proof (cases "notna_vals xs = []")
  case True
  then show ?thesis by (simp add: nanmean_def)
next
  case False
  have "list_all nonneg_cell (notna_vals xs)"
    using assms by (auto simp: notna_vals_def list_all_iff)
  then have "nonneg_cell (csum (notna_vals xs))"
    by (simp add: csum_def foldl_cadd_nonneg)
  moreover have "0 < real (length (notna_vals xs))" using False by simp
  ultimately show ?thesis using False by (simp add: nanmean_def Let_def cdiv_nonneg)
qed

lemma mc_daily_vol_not_negative: "\<not> negative_scale (mc_daily_vol df)"
proof -
  have "list_all (\<lambda>x. x = NaN \<or> nonneg_cell x) (map snd (frame_std (dropna (pct_change df))))"
    by (simp add: frame_std_def list_all_iff nanstd_not_negative)
  then show ?thesis
    unfolding mc_daily_vol_def series_mean_def negative_scale_iff
    using nanmean_not_negative by blast
qed

lemma run_monte_carlo_eq:
  assumes "index df \<noteq> []"
  shows "run_monte_carlo z df n d g =
         Inr (\<lparr>index = (if n \<le> 0 then [] else [0..<Suc (nat d)]),
               columns = map (\<lambda>x. (x, spec_path z (mc_last_price df) (mc_daily_return df)
                                        (mc_daily_vol df) (nat d) (g + x * Suc (nat d))))
                           [0..<nat n]\<rparr>,
              g + nat n * Suc (nat d))"
proof -
  have inst: "simulate_runs z (mc_last_price df) (mc_daily_return df) (mc_daily_vol df)
          (py_range d) (py_range n) \<lparr>index = [], columns = []\<rparr> g =
        Inr (\<lparr>index = (if py_range n = [] then [] else [0..<Suc (nat d)]),
              columns =
                map (\<lambda>i. (py_range n ! i,
                       spec_path z (mc_last_price df) (mc_daily_return df) (mc_daily_vol df)
                         (nat d) (g + i * Suc (nat d))))
                  [0..<nat n]\<rparr>,
             g + nat n * Suc (nat d))"
    using simulate_runs_eq [where xs = "py_range n" and ds = "py_range d"
        and sim = "\<lparr>index = [], columns = []\<rparr>" and dv = "mc_daily_vol df"
        and z = z and lp = "mc_last_price df" and dr = "mc_daily_return df" and g = g,
        OF mc_daily_vol_not_negative]
    by (simp add: py_range_length del: upt_Suc) (simp add: py_range_def)
  have m: "map (\<lambda>i. (py_range n ! i, f i)) [0..<nat n]
                 = map (\<lambda>x. (x, f x)) [0..<nat n]" for f :: "nat \<Rightarrow> cell list"
    by (rule map_cong) (simp_all add: py_range_def)
  have e: "(py_range n = []) = (n \<le> 0)" by (simp add: py_range_def)
  show ?thesis
    using assms unfolding run_monte_carlo_def inst m e by simp
qed

lemma sample_index: "index sample_prices \<noteq> []"
  by (simp add: sample_prices_def)


text \<open>
  Claim C5, as the code has it. For a PriceMatrix with at least one row, a simulation
  count \<open>n\<close> and a horizon \<open>d\<close> (a negative number counts as 0),
  \<open>run_monte_carlo\<close> returns, and takes \<open>n * (d + 1)\<close> draws from the generator. The
  frame it returns has one column per simulation run, labelled \<open>0 .. n-1\<close>, and, when
  there is a run, one row per price of a path: \<open>d + 1\<close> rows and \<open>n\<close> columns. Without
  a run the frame has no rows. For \<open>n = 1\<close> and \<open>d = 0\<close> the frame holds the single value
  \<open>last_price * (1 + shock)\<close>, the shock being the draw \<open>Normal(0, daily_vol)\<close>.
\<close>

theorem run_monte_carlo_shape:
  assumes "index df \<noteq> []"
  shows "\<exists>sim. run_monte_carlo z df n d g = Inr (sim, g + nat n * (nat d + 1)) \<and>
           frame_ok sim \<and>
           ncols sim = nat n \<and> map fst (columns sim) = [0..<nat n] \<and>
           nrows sim = (if 0 < n then nat d + 1 else 0) \<and>
           (n = 1 \<and> d = 0 \<longrightarrow>
              columns sim = [(0, [cmul (mc_last_price df)
                 (cadd (Num 1) (normal_value z (Num 0) (mc_daily_vol df) g))])])"
proof -
  let ?path = "\<lambda>x. spec_path z (mc_last_price df) (mc_daily_return df) (mc_daily_vol df)
                      (nat d) (g + x * Suc (nat d))"
  let ?sim = "\<lparr>index = (if n \<le> 0 then [] else [0..<Suc (nat d)]),
               columns = map (\<lambda>x. (x, ?path x)) [0..<nat n]\<rparr>"
  have 1: "run_monte_carlo z df n d g = Inr (?sim, g + nat n * (nat d + 1))"
    using run_monte_carlo_eq [OF assms] by simp
  have 2: "frame_ok ?sim"
    by (simp add: frame_ok_def list_all_iff length_spec_path del: upt_Suc)
  have 3: "ncols ?sim = nat n" by (simp add: ncols_def)
  have 4: "map fst (columns ?sim) = [0..<nat n]" by (simp add: comp_def)
  have 5: "nrows ?sim = (if 0 < n then nat d + 1 else 0)"
    by (simp add: nrows_def del: upt_Suc)
  have 6: "columns ?sim = [(0, [cmul (mc_last_price df)
             (cadd (Num 1) (normal_value z (Num 0) (mc_daily_vol df) g))])]"
    if "n = 1 \<and> d = 0"
    using that by (simp add: spec_path_def Let_def)
  show ?thesis using 1 2 3 4 5 6 by blast
qed

theorem run_monte_carlo_shape_witness:
  "index sample_prices \<noteq> [] \<and>
   shape_of (run_monte_carlo still_draws sample_prices 3 2 0) = Inr (3, 3) \<and>
   map_sum id snd (run_monte_carlo still_draws sample_prices 3 2 0) = Inr 9"
proof -
  obtain sim where "run_monte_carlo still_draws sample_prices 3 2 0 = Inr (sim, 0 + nat 3 * (nat 2 + 1))"
    "ncols sim = nat 3" "nrows sim = (if 0 < (3::int) then nat 2 + 1 else 0)"
    using run_monte_carlo_shape [OF sample_index, of still_draws 3 2 0] by blast
  then show ?thesis by (simp add: shape_of_def sample_index)
qed


text \<open>
  The claim as the spec states it has the runs as rows. Two runs of horizon 0 give a frame
  of one row and two columns, not of two rows and one column.
\<close>

theorem run_monte_carlo_shape_counterexample:
  "shape_of (run_monte_carlo still_draws sample_prices 2 0 0) = Inr (1, 2) \<and>
   shape_of (run_monte_carlo still_draws sample_prices 2 0 0) \<noteq> Inr (2, 1)"
  unfolding run_monte_carlo_eq [OF sample_index]
  by (simp add: shape_of_def nrows_def ncols_def)




section \<open>Properties of the portfolio optimizer\<close>

lemma pct_change_col_Num:
  assumes fin: "list_all is_finite xs" and nz: "list_all (\<lambda>x. x \<noteq> Num 0) xs" and ne: "xs \<noteq> []"
  shows "pct_change_col xs = NaN # map Num (spec_daily_returns (map num_of xs))"
proof -
  have l: "0 < length (pct_change_col xs)" using ne by (simp add: length_pct_change_col)
  then have "pct_change_col xs = hd (pct_change_col xs) # tl (pct_change_col xs)" by simp
  moreover have "hd (pct_change_col xs) = pct_change_col xs ! 0" using l by (simp add: hd_conv_nth)
  moreover have "pct_change_col xs ! 0 = NaN"
    using pct_change_col_nth [OF finite_notna [OF fin], of 0] ne by simp
  ultimately show ?thesis using returns_col_Num [OF fin nz] by simp
qed

lemma notna_vals_NaN_Num: "notna_vals (NaN # map Num rs) = map Num rs"
  using notna_vals_Num [of rs] by (simp add: notna_vals_def)

lemma nanmean_NaN_Num: "rs \<noteq> [] \<Longrightarrow> nanmean (NaN # map Num rs) = Num (spec_mean rs)"
  by (simp add: nanmean_def notna_vals_NaN_Num csum_Num spec_mean_def)

lemma finite_pairs_Num:
  "filter (\<lambda>p. is_finite (fst p) \<and> is_finite (snd p)) (zip (map Num xs) (map Num ys))
   = zip (map Num xs) (map Num ys)"
  by (rule filter_True) (auto simp: zip_map_map)

lemma cov_pair_Num:
  assumes len: "length ys = length xs" and n: "2 \<le> length xs"
  shows "cov_pair (NaN # map Num xs) (NaN # map Num ys) = Num (spec_cov xs ys)"
proof -
  let ?ps = "zip (map Num xs) (map Num ys)"
  have f: "filter (\<lambda>p. is_finite (fst p) \<and> is_finite (snd p))
             (zip (NaN # map Num xs) (NaN # map Num ys)) = ?ps"
    using finite_pairs_Num [of xs ys] by simp
  have l: "length ?ps = length xs" using len by simp
  have n': "\<not> length xs \<le> 1" "real (length xs) \<noteq> 0" "real (length xs - 1) \<noteq> 0"
    using n by auto
  have fs: "map fst ?ps = map Num xs" "map snd ?ps = map Num ys"
    using len by (simp_all add: map_fst_zip map_snd_zip)
  have mx: "cdiv (csum (map fst ?ps)) (Num (real (length xs))) = Num (spec_mean xs)"
    unfolding fs using n' by (simp add: csum_Num spec_mean_def)
  have my: "cdiv (csum (map snd ?ps)) (Num (real (length xs))) = Num (spec_mean ys)"
    unfolding fs using n' len by (simp add: csum_Num spec_mean_def)
  have cv: "map (\<lambda>p. cmul (csub (fst p) (Num a)) (csub (snd p) (Num b))) ?ps
            = map Num (map2 (\<lambda>x y. (x - a) * (y - b)) xs ys)" for a b
    by (auto simp: zip_map_map csub_def)
  show ?thesis
    unfolding cov_pair_def Let_def f l mx my cv csum_Num spec_cov_def
    using n' by simp
qed

lemma dot_Num: "dot (map Num w) (map Num v) = Num (rdot w v)"
proof -
  have h: "map2 cmul (map Num w) (map Num v) = map Num (map2 (*) w v)"
    by (auto simp: zip_map_map)
  show ?thesis unfolding dot_def rdot_def h csum_Num by (rule refl)
qed

lemma mat_vec_Num:
  "mat_vec (map (map Num) m) (map Num w) = map Num (map (\<lambda>row. rdot row w) m)"
  by (simp add: mat_vec_def dot_Num)

lemma negative_sharpe_Num:
  assumes "0 < spec_quad sigma w" and mu: "map snd mu = map Num m"
  shows "negative_sharpe mu (map (map Num) sigma) (map Num w) = Num (spec_objective m sigma w)"
proof -
  have "0 < sqrt (spec_quad sigma w)" using assms(1) by simp
  then have "sqrt (spec_quad sigma w) \<noteq> 0" "\<not> spec_quad sigma w < 0" using assms(1) by auto
  then show ?thesis
    unfolding negative_sharpe_def Let_def mu dot_Num mat_vec_Num spec_objective_def
    by (simp add: spec_quad_def)
qed

lemma annual_mu_Num:
  assumes ok: "frame_ok df" and rows: "3 \<le> nrows df"
    and fin: "finite_cells df" and nz: "nonzero_cells df"
  shows "annual_mu df =
         map (\<lambda>col. (fst col, Num (spec_mean (spec_daily_returns (map num_of (snd col))) * 252)))
           (columns df)"
proof -
  have "(fst col, cmul (nanmean (pct_change_col (snd col))) (Num 252)) =
        (fst col, Num (spec_mean (spec_daily_returns (map num_of (snd col))) * 252))"
    if "col \<in> set (columns df)" for col
  proof -
    have f: "list_all is_finite (snd col)" "list_all (\<lambda>x. x \<noteq> Num 0) (snd col)"
      using that fin nz unfolding finite_cells_def nonzero_cells_def list_all_iff by blast+
    have l: "length (snd col) = nrows df"
      using that ok by (simp add: frame_ok_def list_all_iff nrows_def)
    then have ne: "snd col \<noteq> []" using rows by auto
    have "length (spec_daily_returns (map num_of (snd col))) = nrows df - 1"
      using l by (simp add: length_spec_daily_returns)
    then have "spec_daily_returns (map num_of (snd col)) \<noteq> []" using rows by auto
    then show ?thesis
      by (simp add: pct_change_col_Num [OF f ne] nanmean_NaN_Num)
  qed
  then show ?thesis
    by (simp add: annual_mu_def series_scale_def frame_mean_def pct_change_def comp_def)
qed


lemma annual_cov_Num:
  assumes ok: "frame_ok df" and rows: "3 \<le> nrows df"
    and fin: "finite_cells df" and nz: "nonzero_cells df"
  shows "annual_cov df = map (map Num) (spec_sigma (ticker_returns df))"
proof -
  let ?rets = "\<lambda>col. spec_daily_returns (map num_of (snd col))"
  have col: "pct_change_col (snd col) = NaN # map Num (?rets col) \<and>
             length (?rets col) = nrows df - 1"
    if "col \<in> set (columns df)" for col
  proof -
    have f: "list_all is_finite (snd col)" "list_all (\<lambda>x. x \<noteq> Num 0) (snd col)"
      using that fin nz unfolding finite_cells_def nonzero_cells_def list_all_iff by blast+
    have l: "length (snd col) = nrows df"
      using that ok by (simp add: frame_ok_def list_all_iff nrows_def)
    then have ne: "snd col \<noteq> []" using rows by auto
    show ?thesis using pct_change_col_Num [OF f ne] l by (simp add: length_spec_daily_returns)
  qed
  have pair: "cmul (cov_pair (pct_change_col (snd ci)) (pct_change_col (snd cj))) (Num 252)
              = Num (spec_cov (?rets ci) (?rets cj) * 252)"
    if "ci \<in> set (columns df)" "cj \<in> set (columns df)" for ci cj
  proof -
    have "length (?rets cj) = length (?rets ci)" "2 \<le> length (?rets ci)"
      using col [OF that(1)] col [OF that(2)] rows by auto
    then show ?thesis
      using col [OF that(1)] col [OF that(2)] by (simp add: cov_pair_Num)
  qed
  show ?thesis
    unfolding annual_cov_def frame_cov_def spec_sigma_def ticker_returns_def
    by (simp add: pct_change_def comp_def pair)
qed


text \<open>
  Claim C3. For a well-formed PriceMatrix with at least one ticker and three rows, whose
  prices are finite and not zero, \<open>optimize_portfolio\<close> hands the solver exactly the
  specified program and returns the solver's vector zipped with the tickers: the
  objective is built from \<open>mu\<close>, the mean daily return of every ticker times 252, and
  \<open>Sigma\<close>, the sample covariance of the daily returns times 252, and it is
  \<open>f(w) = - (w . mu) / sqrt (w^T Sigma w)\<close> wherever \<open>w^T Sigma w\<close> is positive; the
  one constraint is the equality \<open>sum w - 1 = 0\<close>, every weight has the bounds
  \<open>(0, 1)\<close>, the method is SLSQP and the starting point is \<open>1/n\<close> for each of the \<open>n\<close>
  tickers. The solver is a parameter: what it does with the program is not part of the
  statement.
\<close>

theorem optimize_portfolio_program:
  assumes ok: "frame_ok df" and rows: "3 \<le> nrows df" and cols: "columns df \<noteq> []"
    and fin: "finite_cells df" and nz: "nonzero_cells df"
  shows "\<exists>p. sharpe_problem df = Inr p \<and>
           optimize_portfolio minimize df =
             Inr (py_dict (zip (map fst (columns df)) (minimize p))) \<and>
           map snd (annual_mu df) = map Num (spec_mu (ticker_returns df)) \<and>
           annual_cov df = map (map Num) (spec_sigma (ticker_returns df)) \<and>
           solver_method p = SLSQP \<and>
           x0 p = replicate (ncols df) (Num (1 / real (ncols df))) \<and>
           bounds p = replicate (ncols df) (Num 0, Num 1) \<and>
           (\<forall>x. eq_constraint p (map Num x) = Num (sum_list x - 1)) \<and>
           (\<forall>w. length w = ncols df \<and> 0 < spec_quad (spec_sigma (ticker_returns df)) w \<longrightarrow>
              objective p (map Num w) =
              Num (spec_objective (spec_mu (ticker_returns df)) (spec_sigma (ticker_returns df)) w))"
proof -
  let ?p = "\<lparr>objective = negative_sharpe (annual_mu df) (annual_cov df),
             x0 = replicate (length (columns df)) (Num (1 / real (length (columns df)))),
             solver_method = SLSQP,
             bounds = replicate (length (columns df)) (Num 0, Num 1),
             eq_constraint = (\<lambda>x. csub (csum x) (Num 1))\<rparr>"
  have p: "sharpe_problem df = Inr ?p"
    using cols by (simp add: sharpe_problem_def Let_def)
  have o: "optimize_portfolio minimize df = Inr (py_dict (zip (map fst (columns df)) (minimize ?p)))"
    by (simp add: optimize_portfolio_def p)
  have mu: "map snd (annual_mu df) = map Num (spec_mu (ticker_returns df))"
    by (simp add: annual_mu_Num [OF ok rows fin nz] spec_mu_def ticker_returns_def comp_def)
  have S: "annual_cov df = map (map Num) (spec_sigma (ticker_returns df))"
    by (rule annual_cov_Num [OF ok rows fin nz])
  have c: "eq_constraint ?p (map Num x) = Num (sum_list x - 1)" for x
    by (simp add: csum_Num csub_def)
  have f: "objective ?p (map Num w) =
           Num (spec_objective (spec_mu (ticker_returns df)) (spec_sigma (ticker_returns df)) w)"
    if "0 < spec_quad (spec_sigma (ticker_returns df)) w" for w
    using negative_sharpe_Num [OF that mu] by (simp add: S)
  have m: "solver_method ?p = SLSQP"
    "x0 ?p = replicate (ncols df) (Num (1 / real (ncols df)))"
    "bounds ?p = replicate (ncols df) (Num 0, Num 1)"
    by (simp_all add: ncols_def)
  show ?thesis using p o mu S c f m by blast
qed


theorem optimize_portfolio_program_witness:
  "frame_ok sample_prices \<and> 3 \<le> nrows sample_prices \<and> columns sample_prices \<noteq> [] \<and>
   finite_cells sample_prices \<and> nonzero_cells sample_prices \<and>
   map_sum id x0 (sharpe_problem sample_prices) = Inr [Num (1 / 2), Num (1 / 2)] \<and>
   map_sum id bounds (sharpe_problem sample_prices) = Inr [(Num 0, Num 1), (Num 0, Num 1)]"
proof -
  have h: "frame_ok sample_prices" "3 \<le> nrows sample_prices" "columns sample_prices \<noteq> []"
    "finite_cells sample_prices" "nonzero_cells sample_prices"
    by (simp_all add: sample_prices_def frame_ok_def nrows_def finite_cells_def nonzero_cells_def)
  have n: "ncols sample_prices = 2" by (simp add: sample_prices_def ncols_def)
  obtain p where "sharpe_problem sample_prices = Inr p"
    "x0 p = replicate (ncols sample_prices) (Num (1 / real (ncols sample_prices)))"
    "bounds p = replicate (ncols sample_prices) (Num 0, Num 1)"
    using optimize_portfolio_program [OF h, of echo_solver] by blast
  then show ?thesis using h n by (simp add: numeral_2_eq_2)
qed


subsection \<open>The returned mapping\<close>

lemma py_dict_aux:
  "distinct (map fst (d @ ps)) \<Longrightarrow> foldl (\<lambda>d p. dict_set d (fst p) (snd p)) d ps = d @ ps"
proof (induction ps arbitrary: d)
  case Nil
  then show ?case by simp
next
  case (Cons p ps)
  have "fst p \<notin> fst ` set d" using Cons.prems by auto
  then have "dict_set d (fst p) (snd p) = d @ [p]" by (simp add: dict_set_fresh)
  then show ?case using Cons.IH [of "d @ [p]"] Cons.prems by simp
qed

lemma py_dict_distinct: "distinct (map fst ps) \<Longrightarrow> py_dict ps = ps"
  using py_dict_aux [of "[]" ps] by (simp add: py_dict_def)


text \<open>
  Claim C10, as the code has it. For a PriceMatrix with at least one ticker column and
  distinct ticker labels, and a solver whose result vector has the length of its starting
  point (as \<^verbatim>\<open>scipy.optimize.minimize\<close> returns it, converged or not),
  \<open>optimize_portfolio\<close> returns the solver's raw vector zipped with the tickers: one
  entry per column, the keys being the column labels in column order.
\<close>

theorem optimize_portfolio_keys:
  assumes cols: "columns df \<noteq> []" and dist: "distinct (map fst (columns df))"
    and shape: "\<forall>p. length (minimize p) = length (x0 p)"
  shows "\<exists>p. sharpe_problem df = Inr p \<and>
           optimize_portfolio minimize df = Inr (zip (map fst (columns df)) (minimize p)) \<and>
           map fst (zip (map fst (columns df)) (minimize p)) = map fst (columns df) \<and>
           length (zip (map fst (columns df)) (minimize p)) = ncols df"
proof -
  obtain p where p: "sharpe_problem df = Inr p" and x: "length (x0 p) = length (columns df)"
    using cols by (auto simp: sharpe_problem_def Let_def)
  have l: "length (minimize p) = length (columns df)" using shape x by simp
  then have k: "map fst (zip (map fst (columns df)) (minimize p)) = map fst (columns df)"
    by simp
  then have "py_dict (zip (map fst (columns df)) (minimize p)) = zip (map fst (columns df)) (minimize p)"
    using dist by (intro py_dict_distinct) simp
  then show ?thesis using p k l by (simp add: optimize_portfolio_def ncols_def)
qed

theorem optimize_portfolio_keys_witness:
  "columns sample_prices \<noteq> [] \<and> distinct (map fst (columns sample_prices)) \<and>
   (\<forall>p. length (echo_solver p) = length (x0 p)) \<and>
   map_sum id (map fst) (optimize_portfolio echo_solver sample_prices) = Inr [''AAPL'', ''MSFT'']"
proof -
  have h: "columns sample_prices \<noteq> []" "distinct (map fst (columns sample_prices))"
    "\<forall>p. length (echo_solver p) = length (x0 p)"
    by (simp_all add: sample_prices_def echo_solver_def)
  obtain p where "optimize_portfolio echo_solver sample_prices =
        Inr (zip (map fst (columns sample_prices)) (echo_solver p))"
    "map fst (zip (map fst (columns sample_prices)) (echo_solver p)) = map fst (columns sample_prices)"
    using optimize_portfolio_keys [OF h] by blast
  then show ?thesis using h by (simp add: sample_prices_def)
qed


text \<open>
  The claim as stated covers every PriceMatrix. For one without any ticker column
  \<^verbatim>\<open>1. / num_assets\<close> raises ZeroDivisionError and no mapping is returned.
\<close>

theorem optimize_portfolio_keys_counterexample:
  "optimize_portfolio echo_solver no_tickers = Inl ZeroDivisionError"
  by (simp add: optimize_portfolio_def sharpe_problem_def no_tickers_def Let_def)

section \<open>Properties of the price loader\<close>

lemma zip_map_upt:
  "zip (map f xs) (map (\<lambda>t. P (xs ! t)) [0..<length xs]) = map (\<lambda>x. (f x, P x)) xs"
  by (rule nth_equalityI) simp_all

lemma take_rows_map_filter:
  "take_rows (map (\<lambda>t. P (xs ! t)) [0..<length xs]) (map f xs) = map f (filter P xs)"
  unfolding take_rows_def zip_map_upt by (induction xs) simp_all

lemma take_rows_filter:
  "take_rows (map (\<lambda>t. P (xs ! t)) [0..<length xs]) xs = filter P xs"
  using take_rows_map_filter [of P xs "\<lambda>x. x"] by simp

lemma dropna_table:
  "dropna \<lparr>index = dates, columns = map (\<lambda>s. (s, map (f s) dates)) symbols\<rparr> =
   \<lparr>index = filter (\<lambda>d. list_all (\<lambda>s. f s d \<noteq> NaN) symbols) dates,
    columns = map (\<lambda>s. (s, map (f s) (filter (\<lambda>d. list_all (\<lambda>s. f s d \<noteq> NaN) symbols) dates)))
                symbols\<rparr>"
proof -
  let ?fr = "\<lparr>index = dates, columns = map (\<lambda>s. (s, map (f s) dates)) symbols\<rparr>"
  let ?P = "\<lambda>d. list_all (\<lambda>s. f s d \<noteq> NaN) symbols"
  have keep: "map (row_complete ?fr) [0..<length dates] = map (\<lambda>t. ?P (dates ! t)) [0..<length dates]"
    by (rule map_cong [OF refl]) (simp add: row_complete_def list_all_iff)
  have i: "take_rows (map (\<lambda>t. ?P (dates ! t)) [0..<length dates]) dates = filter ?P dates"
    by (rule take_rows_filter)
  have c: "take_rows (map (\<lambda>t. ?P (dates ! t)) [0..<length dates]) (map (f s) dates)
           = map (f s) (filter ?P dates)" for s
    by (rule take_rows_map_filter)
  show ?thesis
    unfolding dropna_def Let_def
    by (simp add: keep i c comp_def)
qed

lemma load_data_ok:
  assumes "read_prices db = Inr rows" "distinct (map (\<lambda>r. (fst (snd r), fst r)) rows)"
  shows "\<exists>pm. load_data db = Inr pm"
  using assms by (simp add: load_data_def pivot_def Let_def)

lemma sample_distinct: "distinct (map (\<lambda>r. (fst (snd r), fst r)) sample_rows)"
  by (simp add: sample_rows_def)

lemma sample_read: "read_prices sample_store = Inr sample_rows"
  by (simp add: read_prices_def sample_store_def sample_rows_def)


text \<open>
  Claim C7. When the query succeeds and no ticker has two rows for one date,
  \<open>load_data\<close> returns a well-formed PriceMatrix without a missing cell, with
  strictly increasing dates and distinct ticker labels. Its columns
  are all the tickers of the query, its dates are exactly the dates on which every ticker
  has a close price that is present (a date on which any ticker lacks a row or has a NULL
  close is dropped for all tickers), and every cell is the close price of its ticker on
  its date.
\<close>

theorem load_data_clean:
  assumes q: "read_prices db = Inr rows"
    and u: "distinct (map (\<lambda>r. (fst (snd r), fst r)) rows)"
  shows "\<exists>pm. load_data db = Inr pm \<and> frame_ok pm \<and> no_missing pm \<and>
           sorted_wrt (<) (index pm) \<and> distinct (map fst (columns pm)) \<and>
           map fst (columns pm) = sort (remdups (map fst rows)) \<and>
           index pm =
             filter (\<lambda>d. list_all (\<lambda>s. close_at rows s d \<noteq> NaN) (sort (remdups (map fst rows))))
               (sort (remdups (map (\<lambda>r. fst (snd r)) rows))) \<and>
           columns pm =
             map (\<lambda>s. (s, map (close_at rows s) (index pm))) (sort (remdups (map fst rows)))"
proof -
  let ?dates = "sort (remdups (map (\<lambda>r. fst (snd r)) rows))"
  let ?symbols = "sort (remdups (map fst rows))"
  let ?P = "\<lambda>d. list_all (\<lambda>s. close_at rows s d \<noteq> NaN) ?symbols"
  let ?pm = "\<lparr>index = filter ?P ?dates,
              columns = map (\<lambda>s. (s, map (close_at rows s) (filter ?P ?dates))) ?symbols\<rparr>"
  have pv: "pivot rows = Inr \<lparr>index = ?dates,
              columns = map (\<lambda>s. (s, map (close_at rows s) ?dates)) ?symbols\<rparr>"
    using u by (simp add: pivot_def Let_def)
  have 1: "load_data db = Inr ?pm"
    by (simp add: load_data_def q pv dropna_table)
  have 2: "frame_ok ?pm" by (simp add: frame_ok_def list_all_iff)
  have 3: "no_missing ?pm" by (auto simp: no_missing_def list_all_iff)
  have 4: "map fst (columns ?pm) = ?symbols" by (simp add: comp_def)
  have 5: "sorted_wrt (<) (index ?pm)" by (simp add: sorted_wrt_filter strict_sorted_iff)
  have 6: "distinct (map fst (columns ?pm))" unfolding 4 by simp
  show ?thesis using 1 2 3 4 5 6 by (intro exI [of _ ?pm]) simp
qed

theorem load_data_clean_witness:
  "read_prices sample_store = Inr sample_rows \<and>
   distinct (map (\<lambda>r. (fst (snd r), fst r)) sample_rows) \<and>
   map_sum id no_missing (load_data sample_store) = Inr True \<and>
   map_sum id index (load_data sample_store) = Inr [1]"
proof -
  have u: "distinct (map (\<lambda>r. (fst (snd r), fst r)) sample_rows)"
    by (simp add: sample_rows_def)
  have s: "sort (remdups (map fst sample_rows)) = [''AAPL'', ''MSFT'']"
    "sort (remdups (map (\<lambda>r. fst (snd r)) sample_rows)) = [1, 2, 3]"
    by (simp_all add: sample_rows_def)
  obtain pm where pm: "load_data sample_store = Inr pm" "no_missing pm"
    "index pm =
       filter (\<lambda>d. list_all (\<lambda>s. close_at sample_rows s d \<noteq> NaN) (sort (remdups (map fst sample_rows))))
         (sort (remdups (map (\<lambda>r. fst (snd r)) sample_rows)))"
    using load_data_clean [OF sample_read u] by blast
  have "index pm = [1]"
    unfolding pm(3) s by (simp add: close_at_def sample_rows_def)
  then show ?thesis using pm sample_read u by simp
qed

section \<open>Properties of the dashboard\<close>

text \<open>
  With both values cached the store is not read again, whatever has become of it; a fresh
  process reads it once. A load that raises ends the run with the ingestion message, and
  an empty selection with the warning; neither reaches the analytics module.
\<close>

lemma load_all_warm:
  "data_cache c = Some df \<Longrightarrow> sector_cache c = Some m \<Longrightarrow> load_all db c = (Inr (df, m), c)"
  by (simp add: load_all_def get_data_def get_sector_map_def)

lemma load_all_cold:
  "load_all db cold_cache =
     (case load_data db of
        Inl e \<Rightarrow> (Inl e, cold_cache)
      | Inr df \<Rightarrow>
          (case read_sectors db of
             Inl e \<Rightarrow> (Inl e, cold_cache\<lparr>data_cache := Some df\<rparr>)
           | Inr m \<Rightarrow> (Inr (df, m), \<lparr>data_cache = Some df, sector_cache = Some m\<rparr>)))"
  by (simp add: load_all_def get_data_def get_sector_map_def cold_cache_def
           split: sum.splits)

lemma dashboard_load_failed:
  "fst (load_all db c) = Inl e \<Longrightarrow>
   dashboard sidebar_of db c = ([StError RunIngestionFirst, StStop], snd (load_all db c))"
  by (cases "load_all db c") (simp add: dashboard_def)

lemma dashboard_no_selection:
  "fst (load_all db c) = Inr (df_prices, sector_map) \<Longrightarrow>
   sidebar_of df_prices sector_map = Inr sb \<Longrightarrow> selected_tickers sb = [] \<Longrightarrow>
   dashboard sidebar_of db c = ([StWarning SelectAtLeastOneAsset, StStop], snd (load_all db c))"
  by (cases "load_all db c") (simp add: dashboard_def)

lemma load_data_empty_store: "load_data empty_store = Inr \<lparr>index = [], columns = []\<rparr>"
  by (simp add: load_data_def read_prices_def empty_store_def pivot_def dropna_def take_rows_def)

lemma load_all_empty_store:
  "load_all empty_store cold_cache =
     (Inr (\<lparr>index = [], columns = []\<rparr>, []),
      \<lparr>data_cache = Some \<lparr>index = [], columns = []\<rparr>, sector_cache = Some []\<rparr>)"
  unfolding load_all_cold load_data_empty_store
  by (simp add: read_sectors_def empty_store_def py_dict_def)

text \<open>
  Claim C9. The dashboard recognizes two failure kinds and halts on each: when the price
  store is unreachable or empty it shows the message that directs the user to run the
  ingestion job and stops; when the user deselects every ticker it shows a warning and
  stops. The script does so for a store that cannot be queried and for an empty selection,
  but not for an empty store. In a fresh process, with a store whose two tables exist and
  hold no row, both loaders return without raising (an empty frame and an empty mapping,
  which are then cached), so the handler that shows the message and stops is not entered:
  whatever the sidebar does, the run does not end with the message. The script goes on to
  the sidebar, whose first statements, \<^verbatim>\<open>df_prices.index.min().date()\<close>, raise on a frame
  without rows; that exception is caught by nothing.
\<close>

theorem dashboard_empty_store:
  "dashboard failing_sidebar Unavailable cold_cache =
     ([StError RunIngestionFirst, StStop], cold_cache) \<and>
   load_all empty_store cold_cache =
     (Inr (\<lparr>index = [], columns = []\<rparr>, []),
      \<lparr>data_cache = Some \<lparr>index = [], columns = []\<rparr>, sector_cache = Some []\<rparr>) \<and>
   dashboard failing_sidebar empty_store cold_cache =
     ([Uncaught WidgetError],
      \<lparr>data_cache = Some \<lparr>index = [], columns = []\<rparr>, sector_cache = Some []\<rparr>) \<and>
   dashboard unselecting_sidebar empty_store cold_cache =
     ([StWarning SelectAtLeastOneAsset, StStop],
      \<lparr>data_cache = Some \<lparr>index = [], columns = []\<rparr>, sector_cache = Some []\<rparr>) \<and>
   fst (dashboard sidebar_of empty_store cold_cache) \<noteq> [StError RunIngestionFirst, StStop]"
proof -
  have u: "dashboard failing_sidebar Unavailable cold_cache =
             ([StError RunIngestionFirst, StStop], cold_cache)"
    by (simp add: dashboard_def load_all_cold load_data_def read_prices_def)
  have f: "dashboard failing_sidebar empty_store cold_cache =
     ([Uncaught WidgetError],
      \<lparr>data_cache = Some \<lparr>index = [], columns = []\<rparr>, sector_cache = Some []\<rparr>)"
    by (simp add: dashboard_def load_all_empty_store failing_sidebar_def)
  have s: "dashboard unselecting_sidebar empty_store cold_cache =
     ([StWarning SelectAtLeastOneAsset, StStop],
      \<lparr>data_cache = Some \<lparr>index = [], columns = []\<rparr>, sector_cache = Some []\<rparr>)"
    by (simp add: dashboard_def load_all_empty_store unselecting_sidebar_def)
  have n: "fst (dashboard sidebar_of empty_store cold_cache) \<noteq> [StError RunIngestionFirst, StStop]"
    by (simp add: dashboard_def load_all_empty_store split: sum.splits prod.splits)
  show ?thesis using u f s n load_all_empty_store by simp
qed

section \<open>Effects of the analytics operations\<close>

text \<open>
  Relabelling the columns commutes with the operations that do not look at the labels,
  and with storing a column when the relabelling is injective; the loops over the state
  do what the loops over values do, and write the frame at its address.
\<close>

lemma row_complete_relabel: "row_complete (relabel f fr) t = row_complete fr t"
  by (simp add: row_complete_def relabel_def list_all_iff)

lemma dropna_relabel: "dropna (relabel f fr) = relabel f (dropna fr)"
proof -
  have rc: "row_complete (relabel f fr) = row_complete fr"
    by (rule ext) (rule row_complete_relabel)
  show ?thesis
    unfolding dropna_def Let_def rc by (simp add: relabel_def comp_def)
qed

lemma dict_set_relabel:
  "inj f \<Longrightarrow> dict_set (map (\<lambda>col. (f (fst col), snd col)) d) (f k) v
              = map (\<lambda>col. (f (fst col), snd col)) (dict_set d k v)"
  by (induction d) (auto dest: injD)

lemma setitem_relabel:
  "inj f \<Longrightarrow> setitem (relabel f fr) (f k) vs = map_sum id (relabel f) (setitem fr k vs)"
  using dict_set_relabel [of f "columns fr" k vs]
        dict_set_relabel [of f "map (\<lambda>col. (fst col, replicate (length vs) NaN)) (columns fr)" k vs]
  by (simp add: setitem_def relabel_def comp_def)

lemma inj_Run: "inj Run"
  by (simp add: inj_def)

lemma simulate_days_st_eq:
  "simulate_days z dr dv ys ps c (generator w) = Inr (ps', c', g') \<Longrightarrow>
   simulate_days_st z dr dv ys ps c w = (Inr (ps', c'), w\<lparr>generator := g'\<rparr>)"
proof (induction ys arbitrary: ps c w)
  case Nil
  then show ?case by simp
next
  case (Cons y ys)
  from Cons.prems have l: "\<not> length ps \<le> c" by (auto split: if_splits)
  from Cons.prems l have n: "\<not> negative_scale dv"
    by (auto simp: normal_def split: if_splits)
  let ?w = "w\<lparr>generator := Suc (generator w)\<rparr>"
  let ?ps = "ps @ [cmul (ps ! c) (cadd (Num 1) (normal_value z dr dv (generator w)))]"
  have "simulate_days z dr dv ys ?ps (c + 1) (generator ?w) = Inr (ps', c', g')"
    using Cons.prems l n by (simp add: normal_def)
  from Cons.IH [OF this] show ?case using l n by (simp add: normal_st_def)
qed

lemma simulate_runs_st_eq:
  "s < length (heap w) \<Longrightarrow> heap w ! s = relabel Run sim \<Longrightarrow>
   simulate_runs z lp dr dv ds xs sim (generator w) = Inr (sim', g') \<Longrightarrow>
   simulate_runs_st z lp dr dv ds xs s w =
     (Inr (), w\<lparr>heap := (heap w)[s := relabel Run sim'], generator := g'\<rparr>)"
proof (induction xs arbitrary: sim w)
  case Nil
  then have "sim' = sim" "g' = generator w" by simp_all
  moreover have "(heap w)[s := relabel Run sim] = heap w"
    using Nil.prems(2) list_update_id [of "heap w" s] by simp
  ultimately show ?case by simp
next
  case (Cons x xs)
  from Cons.prems(3) have n: "\<not> negative_scale dv"
    by (auto simp: normal_def split: if_splits)
  let ?g = "generator w"
  let ?p = "[cmul lp (cadd (Num 1) (normal_value z (Num 0) dv ?g))]"
  from Cons.prems(3) n obtain ps c g2 where
    d: "simulate_days z dr dv ds ?p 0 (Suc ?g) = Inr (ps, c, g2)"
    by (auto simp: normal_def split: sum.splits)
  from Cons.prems(3) n d obtain sim1 where
    si: "setitem sim x ps = Inr sim1"
    by (auto simp: normal_def split: sum.splits)
  from Cons.prems(3) n d si have
    r: "simulate_runs z lp dr dv ds xs sim1 g2 = Inr (sim', g')"
    by (simp add: normal_def)
  let ?w1 = "w\<lparr>generator := Suc ?g\<rparr>"
  have d': "simulate_days_st z dr dv ds ?p 0 ?w1 = (Inr (ps, c), ?w1\<lparr>generator := g2\<rparr>)"
    using simulate_days_st_eq [of z dr dv ds ?p 0 ?w1 ps c g2] d by simp
  let ?w2 = "w\<lparr>generator := g2\<rparr>"
  have w2: "?w1\<lparr>generator := g2\<rparr> = ?w2" by simp
  have si': "setitem (heap ?w2 ! s) (Run x) ps = Inr (relabel Run sim1)"
    using setitem_relabel [OF inj_Run, of sim x ps] si Cons.prems(2) by simp
  let ?w3 = "?w2\<lparr>heap := (heap ?w2)[s := relabel Run sim1]\<rparr>"
  have "simulate_runs_st z lp dr dv ds xs s ?w3 =
        (Inr (), ?w3\<lparr>heap := (heap ?w3)[s := relabel Run sim'], generator := g'\<rparr>)"
    using Cons.prems(1) r by (intro Cons.IH [of ?w3 sim1]) simp_all
  then show ?case
    using n d' si' by (simp add: normal_st_def setitem_st_def w2)
qed


lemma calculate_metrics_st_eq:
  "calculate_metrics_st df w =
     ((Suc (length (heap w)), snd (calculate_metrics (heap w ! df))),
      w\<lparr>heap := heap w @ [pct_change (heap w ! df), dropna (pct_change (heap w ! df))]\<rparr>)"
  by (simp add: calculate_metrics_st_def pct_change_st_def dropna_st_def new_frame_def
        calculate_metrics_def Let_def nth_append)

lemma optimize_portfolio_st_eq:
  "df < length (heap w) \<Longrightarrow>
   optimize_portfolio_st minimize df w =
     (optimize_portfolio minimize (heap w ! df),
      w\<lparr>heap := heap w @ [pct_change (heap w ! df), pct_change (heap w ! df)]\<rparr>)"
  by (simp add: optimize_portfolio_st_def pct_change_st_def new_frame_def Let_def nth_append
        optimize_portfolio_def sharpe_problem_def annual_mu_def annual_cov_def)

lemma load_data_st_eq:
  "load_data_st w =
     (case finance_db w of
        None \<Rightarrow> (Inl DatabaseError, w\<lparr>finance_db := Some Unavailable\<rparr>)
      | Some db \<Rightarrow>
          (case load_data db of
             Inl e \<Rightarrow> (Inl e, w)
           | Inr pm \<Rightarrow> (Inr (length (heap w)), w\<lparr>heap := heap w @ [relabel Ticker pm]\<rparr>)))"
  by (simp add: load_data_st_def read_sql_st_def load_data_def new_frame_def
        dropna_inplace_st_def dropna_relabel split: option.splits sum.splits)

lemma run_monte_carlo_st_empty:
  "index (heap w ! df) = [] \<Longrightarrow> run_monte_carlo_st z df n d w = (Inl IndexError, w)"
  by (simp add: run_monte_carlo_st_def)

lemma run_monte_carlo_st_eq:
  assumes i: "index (heap w ! df) \<noteq> []"
    and r: "run_monte_carlo z (heap w ! df) n d (generator w) = Inr (sim, g')"
  shows "run_monte_carlo_st z df n d w =
           (Inr (length (heap w) + 2),
            w\<lparr>heap := heap w @ [pct_change (heap w ! df), dropna (pct_change (heap w ! df)),
                                 relabel Run sim],
              generator := g'\<rparr>)"
proof -
  let ?fr = "heap w ! df"
  let ?w3 = "w\<lparr>heap := heap w @ [pct_change ?fr, dropna (pct_change ?fr),
                                  \<lparr>index = [], columns = []\<rparr>]\<rparr>"
  let ?s = "length (heap w) + 2"
  have e: "\<lparr>index = [], columns = []\<rparr> = relabel Run \<lparr>index = [], columns = []\<rparr>"
    by (simp add: relabel_def)
  have s: "simulate_runs z (mc_last_price ?fr) (mc_daily_return ?fr) (mc_daily_vol ?fr)
             (py_range d) (py_range n) \<lparr>index = [], columns = []\<rparr> (generator ?w3) = Inr (sim, g')"
    using i r by (simp add: run_monte_carlo_def)
  have "simulate_runs_st z (mc_last_price ?fr) (mc_daily_return ?fr) (mc_daily_vol ?fr)
          (py_range d) (py_range n) ?s ?w3 =
        (Inr (), ?w3\<lparr>heap := (heap ?w3)[?s := relabel Run sim], generator := g'\<rparr>)"
    using e by (intro simulate_runs_st_eq [OF _ _ s]) (simp_all add: nth_append)
  then show ?thesis
    using i by (simp add: run_monte_carlo_st_def pct_change_st_def dropna_st_def new_frame_def
          Let_def nth_append mc_last_price_def mc_daily_vol_def mc_daily_return_def
          list_update_append)
qed

lemma sample_load:
  "load_data sample_store =
     Inr \<lparr>index = [1], columns = [(''AAPL'', [Num 100]), (''MSFT'', [Num 50])]\<rparr>"
proof -
  have s: "sort (remdups (map fst sample_rows)) = [''AAPL'', ''MSFT'']"
    "sort (remdups (map (\<lambda>r. fst (snd r)) sample_rows)) = [1, 2, 3]"
    by (simp_all add: sample_rows_def)
  have pv: "pivot sample_rows =
              Inr \<lparr>index = [1, 2, 3],
                   columns = [(''AAPL'', [Num 100, Num 110, Num 121]),
                              (''MSFT'', [Num 50, NaN, NaN])]\<rparr>"
    using sample_distinct by (simp add: pivot_def Let_def s) (simp add: close_at_def sample_rows_def)
  show ?thesis
    by (simp add: load_data_def sample_read pv dropna_def row_complete_def take_rows_def
          upt_conv_Cons)
qed

lemma walk_returns:
  "dropna (pct_change walk_prices) =
     \<lparr>index = [1, 2, 3], columns = [(Ticker ''AAPL'', [Num 0, Num 1, Num 2])]\<rparr>"
  by (simp add: walk_prices_def pct_change_def pct_change_col_def ffill_def shift1_def csub_def
        dropna_def row_complete_def take_rows_def upt_conv_Cons Let_def)

lemma walk_statistics:
  "mc_last_price walk_prices = Num 6 \<and> mc_daily_vol walk_prices = Num 1 \<and>
   mc_daily_return walk_prices = Num 1"
  by (simp add: mc_last_price_def mc_daily_vol_def mc_daily_return_def walk_returns)
     (simp add: walk_prices_def row_at_def series_mean_def nanmean_def notna_vals_def csum_def
        frame_std_def frame_mean_def nanstd_def nanvar_def csub_def Let_def)

lemma walk_simulation:
  "run_monte_carlo counting_draws walk_prices 1 0 g =
     Inr (\<lparr>index = [0], columns = [(0, [Num (6 * (1 + real g))])]\<rparr>, Suc g)"
proof -
  have i: "index walk_prices \<noteq> []" by (simp add: walk_prices_def)
  show ?thesis
    unfolding run_monte_carlo_eq [OF i]
    by (simp add: walk_statistics spec_path_def normal_value_def counting_draws_def)
qed

lemma walk_simulation_st:
  "run_monte_carlo_st counting_draws 0 1 0 (seeded_world g) =
     (Inr 3,
      \<lparr>finance_db = Some sample_store, generator = Suc g,
       heap = [walk_prices, pct_change walk_prices, dropna (pct_change walk_prices),
               \<lparr>index = [0], columns = [(Run 0, [Num (6 * (1 + real g))])]\<rparr>]\<rparr>)"
proof -
  have h: "heap (seeded_world g) ! 0 = walk_prices" "generator (seeded_world g) = g"
    by (simp_all add: seeded_world_def)
  have i: "index (heap (seeded_world g) ! 0) \<noteq> []" by (simp add: h walk_prices_def)
  have r: "run_monte_carlo counting_draws (heap (seeded_world g) ! 0) 1 0
             (generator (seeded_world g)) =
           Inr (\<lparr>index = [0], columns = [(0, [Num (6 * (1 + real g))])]\<rparr>, Suc g)"
    unfolding h by (rule walk_simulation)
  show ?thesis
    unfolding run_monte_carlo_st_eq [OF i r] by (simp add: seeded_world_def relabel_def)
qed

text \<open>
  Claim C8, as the code has it. Let \<open>df\<close> be the address of a frame of the process.
  \<open>calculate_metrics\<close> and \<open>optimize_portfolio\<close> leave the file, the generator and
  every frame that existed before the call, their input matrix included, as they were (they
  allocate new frames), and their values are those of the functions of the matrix alone.
  \<open>load_data\<close> takes no matrix; it leaves the generator and the existing frames as
  they were. When \<^verbatim>\<open>finance.db\<close> exists it reads it, leaves it as it was, and its
  result is the function of the store; when the file does not exist it creates it and
  raises. \<open>run_monte_carlo\<close> leaves the file and the existing frames, its input matrix
  included, as they were, and takes \<open>n * (d + 1)\<close> draws from the global generator (none
  when the matrix has no row, where it raises); its result is that of the function of the
  matrix and the position of the generator, and it depends on that position: from two
  states that differ in it alone, the results differ.
\<close>

theorem analytics_effects:
  assumes df: "df < length (heap w)"
  shows
  "finance_db (snd (calculate_metrics_st df w)) = finance_db w \<and>
   generator (snd (calculate_metrics_st df w)) = generator w \<and>
   take (length (heap w)) (heap (snd (calculate_metrics_st df w))) = heap w \<and>
   (heap (snd (calculate_metrics_st df w)) ! fst (fst (calculate_metrics_st df w)),
    snd (fst (calculate_metrics_st df w))) = calculate_metrics (heap w ! df) \<and>
   finance_db (snd (optimize_portfolio_st minimize df w)) = finance_db w \<and>
   generator (snd (optimize_portfolio_st minimize df w)) = generator w \<and>
   take (length (heap w)) (heap (snd (optimize_portfolio_st minimize df w))) = heap w \<and>
   fst (optimize_portfolio_st minimize df w) = optimize_portfolio minimize (heap w ! df) \<and>
   generator (snd (load_data_st w)) = generator w \<and>
   take (length (heap w)) (heap (snd (load_data_st w))) = heap w \<and>
   (finance_db w = None \<longrightarrow>
      load_data_st w = (Inl DatabaseError, w\<lparr>finance_db := Some Unavailable\<rparr>)) \<and>
   (finance_db w = Some db \<longrightarrow>
      finance_db (snd (load_data_st w)) = Some db \<and>
      result_frame (load_data_st w) = map_sum id (relabel Ticker) (load_data db)) \<and>
   finance_db (snd (run_monte_carlo_st z df n d w)) = finance_db w \<and>
   take (length (heap w)) (heap (snd (run_monte_carlo_st z df n d w))) = heap w \<and>
   generator (snd (run_monte_carlo_st z df n d w)) =
     (if index (heap w ! df) = [] then generator w else generator w + nat n * (nat d + 1)) \<and>
   result_frame (run_monte_carlo_st z df n d w) =
     map_sum id (\<lambda>p. relabel Run (fst p)) (run_monte_carlo z (heap w ! df) n d (generator w)) \<and>
   heap (seeded_world 0) = heap (seeded_world 1) \<and>
   finance_db (seeded_world 0) = finance_db (seeded_world 1) \<and>
   result_frame (run_monte_carlo_st counting_draws 0 1 0 (seeded_world 0)) \<noteq>
     result_frame (run_monte_carlo_st counting_draws 0 1 0 (seeded_world 1))"
proof -
  have 1: "finance_db (snd (calculate_metrics_st df w)) = finance_db w"
    "generator (snd (calculate_metrics_st df w)) = generator w"
    "take (length (heap w)) (heap (snd (calculate_metrics_st df w))) = heap w"
    "(heap (snd (calculate_metrics_st df w)) ! fst (fst (calculate_metrics_st df w)),
      snd (fst (calculate_metrics_st df w))) = calculate_metrics (heap w ! df)"
    by (simp_all add: calculate_metrics_st_eq nth_append) (simp add: calculate_metrics_def Let_def)
  have 2: "finance_db (snd (optimize_portfolio_st minimize df w)) = finance_db w"
    "generator (snd (optimize_portfolio_st minimize df w)) = generator w"
    "take (length (heap w)) (heap (snd (optimize_portfolio_st minimize df w))) = heap w"
    "fst (optimize_portfolio_st minimize df w) = optimize_portfolio minimize (heap w ! df)"
    by (simp_all add: optimize_portfolio_st_eq [OF df])
  have 3: "generator (snd (load_data_st w)) = generator w"
    "take (length (heap w)) (heap (snd (load_data_st w))) = heap w"
    by (simp_all add: load_data_st_eq split: option.splits sum.splits)
  have 4: "load_data_st w = (Inl DatabaseError, w\<lparr>finance_db := Some Unavailable\<rparr>)"
    if "finance_db w = None"
    using that by (simp add: load_data_st_eq)
  have 5: "finance_db (snd (load_data_st w)) = Some db \<and>
           result_frame (load_data_st w) = map_sum id (relabel Ticker) (load_data db)"
    if "finance_db w = Some db"
    using that by (simp add: load_data_st_eq result_frame_def split: sum.splits)
  have 6: "finance_db (snd (run_monte_carlo_st z df n d w)) = finance_db w \<and>
     take (length (heap w)) (heap (snd (run_monte_carlo_st z df n d w))) = heap w \<and>
     generator (snd (run_monte_carlo_st z df n d w)) =
       (if index (heap w ! df) = [] then generator w else generator w + nat n * (nat d + 1)) \<and>
     result_frame (run_monte_carlo_st z df n d w) =
       map_sum id (\<lambda>p. relabel Run (fst p)) (run_monte_carlo z (heap w ! df) n d (generator w))"
  proof (cases "index (heap w ! df) = []")
    case True
    then show ?thesis
      by (simp add: run_monte_carlo_st_empty result_frame_def run_monte_carlo_def)
  next
    case False
    obtain sim where r: "run_monte_carlo z (heap w ! df) n d (generator w) =
                           Inr (sim, generator w + nat n * Suc (nat d))"
      using run_monte_carlo_eq [OF False] by blast
    show ?thesis
      using False
      by (simp add: run_monte_carlo_st_eq [OF False r] r result_frame_def nth_append)
  qed
  have 7: "heap (seeded_world 0) = heap (seeded_world 1)"
    "finance_db (seeded_world 0) = finance_db (seeded_world 1)"
    by (simp_all add: seeded_world_def)
  have 8: "result_frame (run_monte_carlo_st counting_draws 0 1 0 (seeded_world 0)) \<noteq>
           result_frame (run_monte_carlo_st counting_draws 0 1 0 (seeded_world 1))"
    by (simp add: walk_simulation_st result_frame_def)
  show ?thesis using 1 2 3 4 5 6 7 8 by blast
qed

theorem analytics_effects_witness:
  "(0::nat) < length (heap (seeded_world 0)) \<and>
   finance_db (seeded_world 0) = Some sample_store \<and>
   finance_db fresh_world = None \<and>
   heap (seeded_world 0) ! 0 = walk_prices \<and>
   heap (snd (calculate_metrics_st 0 (seeded_world 0))) ! 0 = walk_prices \<and>
   heap (snd (optimize_portfolio_st echo_solver 0 (seeded_world 0))) ! 0 = walk_prices \<and>
   heap (snd (run_monte_carlo_st counting_draws 0 1 0 (seeded_world 0))) ! 0 = walk_prices \<and>
   generator (snd (run_monte_carlo_st counting_draws 0 1 0 (seeded_world 0))) = 1 \<and>
   finance_db (snd (load_data_st (seeded_world 0))) = Some sample_store \<and>
   load_data_st fresh_world = (Inl DatabaseError, fresh_world\<lparr>finance_db := Some Unavailable\<rparr>)"
proof -
  have l: "(0::nat) < length (heap (seeded_world 0))" "(0::nat) < length (heap fresh_world)"
    and f: "finance_db (seeded_world 0) = Some sample_store" "finance_db fresh_world = None"
    and h: "heap (seeded_world 0) = [walk_prices]" "generator (seeded_world 0) = 0"
    by (simp_all add: seeded_world_def fresh_world_def)
  have i: "index (heap (seeded_world 0) ! 0) \<noteq> []" by (simp add: h walk_prices_def)
  note a = analytics_effects [OF l(1), of echo_solver sample_store counting_draws 1 0]
  note b = analytics_effects [OF l(2), of echo_solver sample_store counting_draws 1 0]
  have t: "take (length (heap (seeded_world 0))) (heap (snd (calculate_metrics_st 0 (seeded_world 0))))
             = heap (seeded_world 0)"
    "take (length (heap (seeded_world 0)))
       (heap (snd (optimize_portfolio_st echo_solver 0 (seeded_world 0)))) = heap (seeded_world 0)"
    "take (length (heap (seeded_world 0)))
       (heap (snd (run_monte_carlo_st counting_draws 0 1 0 (seeded_world 0)))) = heap (seeded_world 0)"
    "generator (snd (run_monte_carlo_st counting_draws 0 1 0 (seeded_world 0))) =
       (if index (heap (seeded_world 0) ! 0) = [] then generator (seeded_world 0)
        else generator (seeded_world 0) + nat 1 * (nat 0 + 1))"
    "finance_db (snd (load_data_st (seeded_world 0))) = Some sample_store"
    using a f by blast+
  have u: "load_data_st fresh_world =
             (Inl DatabaseError, fresh_world\<lparr>finance_db := Some Unavailable\<rparr>)"
    using b f by blast
  have n: "xs ! 0 = walk_prices" if "take (length [walk_prices]) xs = [walk_prices]"
    for xs :: "table list"
    using that by (cases xs) simp_all
  show ?thesis
    using l f u t(4,5) i n [OF t(1) [unfolded h]] n [OF t(2) [unfolded h]] n [OF t(3) [unfolded h]]
    by (simp add: h)
qed


text \<open>
  The claim as the specification states it has all four operations pure, without I/O and
  without side effects. A simulation of one run and horizon 0 leaves the generator one draw
  further, and gives 6 from position 0 and 12 from position 1 for the same matrix;
  \<open>load_data\<close> creates the file that was not there, and gives different results for
  different stores.
\<close>

theorem analytics_effects_counterexample:
  "generator (seeded_world 0) = 0 \<and>
   generator (snd (run_monte_carlo_st counting_draws 0 1 0 (seeded_world 0))) = 1 \<and>
   result_frame (run_monte_carlo_st counting_draws 0 1 0 (seeded_world 0)) =
     Inr \<lparr>index = [0], columns = [(Run 0, [Num 6])]\<rparr> \<and>
   result_frame (run_monte_carlo_st counting_draws 0 1 0 (seeded_world 1)) =
     Inr \<lparr>index = [0], columns = [(Run 0, [Num 12])]\<rparr> \<and>
   finance_db fresh_world = None \<and>
   finance_db (snd (load_data_st fresh_world)) = Some Unavailable \<and>
   result_frame (load_data_st (seeded_world 0)) =
     Inr \<lparr>index = [1], columns = [(Ticker ''AAPL'', [Num 100]), (Ticker ''MSFT'', [Num 50])]\<rparr> \<and>
   result_frame (load_data_st ((seeded_world 0)\<lparr>finance_db := Some empty_store\<rparr>)) =
     Inr \<lparr>index = [], columns = []\<rparr>"
proof -
  have 1: "generator (seeded_world 0) = 0" "finance_db fresh_world = None"
    by (simp_all add: seeded_world_def fresh_world_def)
  have 2: "generator (snd (run_monte_carlo_st counting_draws 0 1 0 (seeded_world 0))) = 1"
    "result_frame (run_monte_carlo_st counting_draws 0 1 0 (seeded_world 0)) =
       Inr \<lparr>index = [0], columns = [(Run 0, [Num 6])]\<rparr>"
    "result_frame (run_monte_carlo_st counting_draws 0 1 0 (seeded_world 1)) =
       Inr \<lparr>index = [0], columns = [(Run 0, [Num 12])]\<rparr>"
    by (simp_all add: walk_simulation_st result_frame_def)
  have 3: "finance_db (snd (load_data_st fresh_world)) = Some Unavailable"
    by (simp add: load_data_st_eq fresh_world_def)
  have e: "load_data empty_store = Inr \<lparr>index = [], columns = []\<rparr>"
    by (rule load_data_empty_store)
  have 4: "result_frame (load_data_st (seeded_world 0)) =
     Inr \<lparr>index = [1], columns = [(Ticker ''AAPL'', [Num 100]), (Ticker ''MSFT'', [Num 50])]\<rparr>"
    "result_frame (load_data_st ((seeded_world 0)\<lparr>finance_db := Some empty_store\<rparr>)) =
     Inr \<lparr>index = [], columns = []\<rparr>"
    by (simp_all add: load_data_st_eq seeded_world_def sample_load e result_frame_def relabel_def)
  show ?thesis using 1 2 3 4 by simp
qed

end
